theory Spec2Isabelle
  imports Complex_Main "HOL-Library.Sublist"
begin

section \<open>JavaScript values and the environment of the service\<close>

text \<open>
  The service module (\<^verbatim>\<open>services/geminiService\<close>) is a set of asynchronous functions
  around a remote client. Every function is modelled as a pure function of the
  environment it runs in: the process configuration, the answers of the remote
  service, and the built-ins of the runtime it calls. A thrown \<^verbatim>\<open>Error\<close> is the left
  summand of the result; what a function does besides returning (remote requests,
  timer waits, progress callbacks, console output) is the list of events it returns.
  A string is the list of its code units.
\<close>

datatype js_error = Error string

text \<open>
  A value of type \<^verbatim>\<open>string | undefined\<close> is a \<open>string option\<close>. It is falsy when it is
  \<^verbatim>\<open>undefined\<close> or the empty string.
\<close>

fun falsy :: "string option \<Rightarrow> bool" where
  "falsy None = True"
| "falsy (Some s) = (s = [])"

text \<open>\<^verbatim>\<open>a || b\<close> for an optional string \<open>a\<close> and a string \<open>b\<close>.\<close>

fun or_else :: "string option \<Rightarrow> string \<Rightarrow> string" where
  "or_else None b = b"
| "or_else (Some a) b = (if a = [] then b else a)"

text \<open>\<^verbatim>\<open>s.substring(0, n)\<close> for \<open>0 \<le> n\<close>: the first \<open>n\<close> code units, all of \<open>s\<close> when it is shorter.\<close>

definition substring0 :: "string \<Rightarrow> nat \<Rightarrow> string" where
  "substring0 s n = take n s"

section \<open>Data exchanged with the remote service\<close>

text \<open>The browser \<^verbatim>\<open>File\<close>: of its fields the service reads \<^verbatim>\<open>name\<close> and \<^verbatim>\<open>type\<close>.\<close>

record File =
  file_name :: string
  file_type :: string

text \<open>
  The file object of the Files API, read by the service as \<^verbatim>\<open>fileData\<close>. Every field may
  be missing, and \<^verbatim>\<open>state\<close> is compared with string literals.
\<close>

record file_data =
  fd_name :: "string option"
  fd_uri :: "string option"
  fd_mimeType :: "string option"
  fd_state :: "string option"

text \<open>
  The answer of \<^verbatim>\<open>ai.files.upload\<close> and \<^verbatim>\<open>ai.files.get\<close> holds the file object either
  under \<^verbatim>\<open>.file\<close> or directly; \<^verbatim>\<open>result.file ?? result\<close> reads it.
\<close>

datatype api_result = Wrapped file_data | Direct file_data

fun unwrap :: "api_result \<Rightarrow> file_data" where
  "unwrap (Wrapped fd) = fd"
| "unwrap (Direct fd) = fd"

record upload_params =
  up_file :: File
  up_displayName :: string
  up_mimeType :: string

text \<open>The response schema sent with the analysis request (\<^verbatim>\<open>Type.OBJECT\<close> and so on).\<close>

datatype schema_type = OBJECT | ARRAY | STRING | NUMBER

datatype schema = Schema
  (sch_type: schema_type)
  (sch_description: "string option")
  (sch_properties: "(string \<times> schema) list")
  (sch_items: "schema option")
  (sch_enum: "string list")
  (sch_required: "string list")

datatype part =
    FileDataPart string string
  | TextPart string
  | InlineDataPart "string option" string

datatype contents = Parts "part list" | Query string

datatype tool = GoogleSearch

record gen_config =
  cfg_responseMimeType :: "string option"
  cfg_responseSchema :: "schema option"
  cfg_thinkingBudget :: "nat option"
  cfg_tools :: "tool list"

record gen_request =
  req_model :: string
  req_contents :: contents
  req_config :: "gen_config option"

text \<open>
  Grounding metadata of a search answer. A grounding chunk is read by the chat
  component as \<^verbatim>\<open>s.web || s.entry_point\<close>; a link is \<^verbatim>\<open>{ title, uri }\<close>.
\<close>

record source_link =
  link_title :: string
  link_uri :: string

record grounding_chunk =
  web :: "source_link option"
  entry_point :: "source_link option"

record grounding_metadata =
  groundingChunks :: "grounding_chunk list option"

record candidate =
  groundingMetadata :: "grounding_metadata option"

record gen_response =
  resp_text :: "string option"
  resp_candidates :: "candidate list option"

record history_entry =
  h_role :: string
  h_content :: string

record chat_params =
  chat_model :: string
  chat_systemInstruction :: string
  chat_history :: "(string \<times> part list) list"

text \<open>The value \<^verbatim>\<open>JSON.parse\<close> returns. An object keeps its members in order.\<close>

datatype json =
    JNull
  | JBool bool
  | JNumber real
  | JString string
  | JArray "json list"
  | JObject "(string \<times> json) list"

text \<open>\<^verbatim>\<open>v.k\<close>: the property \<open>k\<close> of an object, \<open>None\<close> for \<^verbatim>\<open>undefined\<close>.\<close>

fun property :: "json \<Rightarrow> string \<Rightarrow> json option" where
  "property (JObject kvs) k = map_of kvs k"
| "property _ k = None"

text \<open>
  The environment of one call:
  \<^item> \<open>API_KEY\<close> is \<^verbatim>\<open>process.env.API_KEY\<close>;
  \<^item> \<open>files_upload\<close>, \<open>generateContent\<close> and \<open>sendMessage\<close> are the answers of the remote
    service to the request given, \<open>Inl\<close> when the call rejects;
  \<^item> \<open>files_get i n\<close> is the answer to the \<open>i\<close>-th status request of the call (counted
    from 0), made for the file name \<open>n\<close>;
  \<^item> \<open>JSON_parse\<close> is the built-in \<^verbatim>\<open>JSON.parse\<close>, \<open>None\<close> when it throws;
  \<^item> \<open>readAsDataURL\<close> is what the \<^verbatim>\<open>FileReader\<close> delivers, \<open>Inl\<close> when it fails.
\<close>

record env =
  API_KEY :: "string option"
  files_upload :: "upload_params \<Rightarrow> js_error + api_result"
  files_get :: "nat \<Rightarrow> string option \<Rightarrow> js_error + api_result"
  generateContent :: "gen_request \<Rightarrow> js_error + gen_response"
  sendMessage :: "chat_params \<Rightarrow> string \<Rightarrow> js_error + gen_response"
  JSON_parse :: "string \<Rightarrow> json option"
  readAsDataURL :: "File \<Rightarrow> js_error + string"

text \<open>What a call does besides returning, in the order it happens.\<close>

datatype log_arg = ArgError js_error | ArgResult api_result | ArgText string

datatype event =
    Progress string
  | FilesUpload upload_params
  | SetTimeout nat
  | FilesGet "string option"
  | GenerateContent gen_request
  | ChatsCreate chat_params
  | SendMessage string
  | ReadAsDataURL File
  | ConsoleWarn string log_arg
  | ConsoleError string log_arg

fun is_wait :: "event \<Rightarrow> bool" where
  "is_wait (SetTimeout _) = True"
| "is_wait _ = False"

fun is_status_poll :: "event \<Rightarrow> bool" where
  "is_status_poll (FilesGet _) = True"
| "is_status_poll _ = False"

type_synonym 'a outcome = "(js_error + 'a) \<times> event list"

section \<open>The service functions\<close>

text \<open>\<^verbatim>\<open>getAiClient\<close>: the client is represented by the key it is built from.\<close>

definition getAiClient :: "env \<Rightarrow> js_error + string" where
  "getAiClient e =
     (case API_KEY e of
        None \<Rightarrow> Inl (Error ''API Key not found'')
      | Some apiKey \<Rightarrow>
          if apiKey = [] then Inl (Error ''API Key not found'') else Inr apiKey)"

text \<open>\<^verbatim>\<open>if (onProgress) onProgress(msg)\<close>; the flag says whether the caller gave a callback.\<close>

definition report :: "bool \<Rightarrow> string \<Rightarrow> event list" where
  "report onProgress msg = (if onProgress then [Progress msg] else [])"

subsection \<open>uploadMediaFile\<close>

text \<open>
  The body of the polling loop, run while \<^verbatim>\<open>fileData.state === "PROCESSING"\<close>: report,
  wait 2000 ms, ask for the file by name. An answer replaces \<^verbatim>\<open>fileData\<close>; a rejected
  request is caught, a warning is written and \<^verbatim>\<open>fileData\<close> stays as it was.
\<close>

definition poll_body :: "env \<Rightarrow> bool \<Rightarrow> nat \<Rightarrow> file_data \<Rightarrow> file_data \<times> event list" where
  "poll_body e onProgress i fileData =
     (let evs = report onProgress ''Processing media file (this may take a moment)...''
                @ [SetTimeout 2000, FilesGet (fd_name fileData)]
      in case files_get e i (fd_name fileData) of
           Inr getResult \<Rightarrow> (unwrap getResult, evs)
         | Inl err \<Rightarrow>
             (fileData,
              evs @ [ConsoleWarn ''Error polling file status, retrying...'' (ArgError err)]))"

text \<open>
  The loop has no bound on the number of rounds: it is a partial function, \<open>None\<close> when it
  never leaves the loop. \<open>i\<close> counts the status requests made so far, \<open>tr\<close> holds the
  events so far.
\<close>

partial_function (option) poll_loop ::
  "env \<Rightarrow> bool \<Rightarrow> nat \<Rightarrow> file_data \<Rightarrow> event list \<Rightarrow> (file_data \<times> event list) option"
where
  "poll_loop e onProgress i fileData tr =
     (if fd_state fileData = Some ''PROCESSING'' then
        poll_loop e onProgress (Suc i)
          (fst (poll_body e onProgress i fileData))
          (tr @ snd (poll_body e onProgress i fileData))
      else Some (fileData, tr))"

record uploaded =
  uri :: string
  mimeType :: string

text \<open>What follows the loop: the checks on the last \<^verbatim>\<open>fileData\<close> and the value returned.\<close>

definition after_poll :: "File \<Rightarrow> file_data \<Rightarrow> js_error + uploaded" where
  "after_poll file fileData =
     (if fd_state fileData = Some ''FAILED'' then
        Inl (Error ''File processing failed on Gemini servers.'')
      else
        (case fd_uri fileData of
           None \<Rightarrow> Inl (Error ''File processing incomplete: Missing URI.'')
         | Some u \<Rightarrow>
             if u = [] then Inl (Error ''File processing incomplete: Missing URI.'')
             else Inr \<lparr>uri = u, mimeType = or_else (fd_mimeType fileData) (file_type file)\<rparr>))"

text \<open>The \<^verbatim>\<open>try\<close> block of \<^verbatim>\<open>uploadMediaFile\<close>; \<open>tr\<close> holds the events before it.\<close>

definition upload_try :: "env \<Rightarrow> File \<Rightarrow> bool \<Rightarrow> event list \<Rightarrow> (uploaded outcome) option" where
  "upload_try e file onProgress tr =
     (let params = \<lparr>up_file = file, up_displayName = file_name file,
                     up_mimeType = file_type file\<rparr>;
          tr1 = tr @ [FilesUpload params]
      in case files_upload e params of
           Inl err \<Rightarrow> Some (Inl err, tr1)
         | Inr uploadResult \<Rightarrow>
             (let fileData = unwrap uploadResult
              in if falsy (fd_name fileData) \<or> falsy (fd_uri fileData) then
                   Some (Inl (Error ''Upload failed: Invalid response from Gemini API.''),
                         tr1 @ [ConsoleError ''Invalid upload response:'' (ArgResult uploadResult)])
                 else
                   (case poll_loop e onProgress 0 fileData tr1 of
                      None \<Rightarrow> None
                    | Some (fileData', tr2) \<Rightarrow> Some (after_poll file fileData', tr2))))"

text \<open>
  \<^verbatim>\<open>uploadMediaFile\<close>: the client is built before the \<^verbatim>\<open>try\<close>; the \<^verbatim>\<open>catch\<close> writes every
  error of the block to the console and throws it again.
\<close>

definition uploadMediaFile :: "env \<Rightarrow> File \<Rightarrow> bool \<Rightarrow> (uploaded outcome) option" where
  "uploadMediaFile e file onProgress =
     (case getAiClient e of
        Inl err \<Rightarrow> Some (Inl err, [])
      | Inr ai \<Rightarrow>
          (case upload_try e file onProgress
                  (report onProgress ''Uploading media to safe storage...'') of
             None \<Rightarrow> None
           | Some (Inl error, tr) \<Rightarrow>
               Some (Inl error, tr @ [ConsoleError ''Media upload error:'' (ArgError error)])
           | Some (Inr r, tr) \<Rightarrow> Some (Inr r, tr)))"

subsection \<open>analyzeMeetingMedia\<close>

definition str_schema :: "string option \<Rightarrow> schema" where
  "str_schema d = Schema STRING d [] None [] []"

definition responseSchema :: schema where
  "responseSchema =
     Schema OBJECT None
       [(''title'', str_schema (Some ''A professional title for the meeting.'')),
        (''summary'', str_schema (Some ''A comprehensive executive summary.'')),
        (''keyDecisions'',
           Schema ARRAY (Some ''List of key decisions made.'') [] (Some (str_schema None)) [] []),
        (''transcript'',
           Schema ARRAY None []
             (Some (Schema OBJECT None
                [(''speaker'', str_schema None),
                 (''timestamp'', str_schema (Some ''Format HH:MM:SS'')),
                 (''text'', str_schema None)] None [] [])) [] []),
        (''actionItems'',
           Schema ARRAY None []
             (Some (Schema OBJECT None
                [(''task'', str_schema None),
                 (''owner'', str_schema None),
                 (''status'', Schema STRING None [] None [''Pending'', ''In Progress'', ''Done''] []),
                 (''dueDate'', str_schema None)] None [] [])) [] []),
        (''sentimentData'',
           Schema ARRAY
             (Some ''Analyze the sentiment flow of the meeting at 1-minute intervals.'') []
             (Some (Schema OBJECT None
                [(''time'', str_schema None),
                 (''score'', Schema NUMBER
                    (Some ''Float between -1.0 (Negative) and 1.0 (Positive)'') [] None [] []),
                 (''mood'', str_schema None)] None [] [])) [] []),
        (''topics'', Schema ARRAY None [] (Some (str_schema None)) [] [])]
       None []
       [''title'', ''summary'', ''transcript'', ''actionItems'', ''sentimentData'', ''topics'']"

definition analysis_prompt :: string where
  "analysis_prompt =
     ''Analyze this meeting recording. \<newline>          1. Provide a full transcript with speaker diarization (e.g., Speaker 1, Speaker 2).\<newline>          2. Generate a high-quality summary and extract action items.\<newline>          3. Analyze the visual context if video is provided (e.g., slides shown, screen sharing content) and incorporate into the notes.\<newline>          4. Perform sentiment analysis over time.\<newline>          5. Return ONLY JSON matching the schema.''"

definition analysis_request :: "uploaded \<Rightarrow> gen_request" where
  "analysis_request up =
     \<lparr>req_model = ''gemini-3-pro-preview'',
      req_contents = Parts [FileDataPart (uri up) (mimeType up), TextPart analysis_prompt],
      req_config = Some \<lparr>cfg_responseMimeType = Some ''application/json'',
                         cfg_responseSchema = Some responseSchema,
                         cfg_thinkingBudget = Some 32768,
                         cfg_tools = []\<rparr>\<rparr>"

text \<open>
  The end of \<^verbatim>\<open>analyzeMeetingMedia\<close>: an empty or missing text throws; otherwise the value
  of \<^verbatim>\<open>JSON.parse(text)\<close> is returned as it is, and only an exception of \<^verbatim>\<open>JSON.parse\<close>
  reaches the \<^verbatim>\<open>catch\<close>.
\<close>

definition parse_response :: "env \<Rightarrow> gen_response \<Rightarrow> json outcome" where
  "parse_response e response =
     (case resp_text response of
        None \<Rightarrow> (Inl (Error ''No response from AI''), [])
      | Some text \<Rightarrow>
          if text = [] then (Inl (Error ''No response from AI''), [])
          else
            (case JSON_parse e text of
               Some v \<Rightarrow> (Inr v, [])
             | None \<Rightarrow>
                 (Inl (Error ''Failed to parse analysis results.''),
                  [ConsoleError ''Failed to parse JSON'' (ArgText text)])))"

definition analyzeMeetingMedia :: "env \<Rightarrow> File \<Rightarrow> bool \<Rightarrow> (json outcome) option" where
  "analyzeMeetingMedia e file onProgress =
     (case getAiClient e of
        Inl err \<Rightarrow> Some (Inl err, [])
      | Inr ai \<Rightarrow>
          (case uploadMediaFile e file onProgress of
             None \<Rightarrow> None
           | Some (Inl err, tr) \<Rightarrow> Some (Inl err, tr)
           | Some (Inr up, tr) \<Rightarrow>
               (let tr1 = tr @ report onProgress ''Deep Thinking & Analysis...''
                          @ [GenerateContent (analysis_request up)]
                in case generateContent e (analysis_request up) of
                     Inl err \<Rightarrow> Some (Inl err, tr1)
                   | Inr response \<Rightarrow>
                       Some (fst (parse_response e response),
                             tr1 @ snd (parse_response e response)))))"

subsection \<open>chatWithMeetingContext\<close>

definition instruction_head :: string where
  "instruction_head =
     ''You are a helpful meeting assistant. Answer questions based on the following meeting context data: \<newline>  ''"

definition instruction_tail :: string where
  "instruction_tail = ''... (truncated if too long). \<newline>  Be concise and helpful.''"

definition systemInstruction :: "string \<Rightarrow> string" where
  "systemInstruction contextData =
     instruction_head @ substring0 contextData 30000 @ instruction_tail"

definition chat_request :: "history_entry list \<Rightarrow> string \<Rightarrow> chat_params" where
  "chat_request history contextData =
     \<lparr>chat_model = ''gemini-2.5-flash-lite'',
      chat_systemInstruction = systemInstruction contextData,
      chat_history = map (\<lambda>h. (h_role h, [TextPart (h_content h)])) history\<rparr>"

definition chatWithMeetingContext ::
  "env \<Rightarrow> history_entry list \<Rightarrow> string \<Rightarrow> string \<Rightarrow> string outcome" where
  "chatWithMeetingContext e history newMessage contextData =
     (case getAiClient e of
        Inl err \<Rightarrow> (Inl err, [])
      | Inr ai \<Rightarrow>
          (let chat = chat_request history contextData;
               tr = [ChatsCreate chat, SendMessage newMessage]
           in case sendMessage e chat newMessage of
                Inl err \<Rightarrow> (Inl err, tr)
              | Inr result \<Rightarrow>
                  (Inr (or_else (resp_text result) ''I couldn't generate a response.''), tr)))"

subsection \<open>researchTopic\<close>

record research_result =
  res_text :: string
  res_sources :: "grounding_chunk list"

text \<open>\<^verbatim>\<open>response.candidates?.[0]?.groundingMetadata?.groundingChunks\<close>\<close>

definition response_chunks :: "gen_response \<Rightarrow> grounding_chunk list option" where
  "response_chunks response =
     (case resp_candidates response of
        None \<Rightarrow> None
      | Some [] \<Rightarrow> None
      | Some (c # _) \<Rightarrow>
          (case groundingMetadata c of
             None \<Rightarrow> None
           | Some m \<Rightarrow> groundingChunks m))"

definition research_request :: "string \<Rightarrow> gen_request" where
  "research_request query =
     \<lparr>req_model = ''gemini-2.5-flash'',
      req_contents = Query query,
      req_config = Some \<lparr>cfg_responseMimeType = None, cfg_responseSchema = None,
                         cfg_thinkingBudget = None, cfg_tools = [GoogleSearch]\<rparr>\<rparr>"

definition researchTopic :: "env \<Rightarrow> string \<Rightarrow> research_result outcome" where
  "researchTopic e query =
     (case getAiClient e of
        Inl err \<Rightarrow> (Inl err, [])
      | Inr ai \<Rightarrow>
          (case generateContent e (research_request query) of
             Inl err \<Rightarrow> (Inl err, [GenerateContent (research_request query)])
           | Inr response \<Rightarrow>
               (Inr \<lparr>res_text = or_else (resp_text response) ''No results found.'',
                     res_sources = (case response_chunks response of
                                      None \<Rightarrow> []
                                    | Some chunks \<Rightarrow> chunks)\<rparr>,
                [GenerateContent (research_request query)])))"

subsection \<open>analyzeUploadedImage\<close>

text \<open>\<^verbatim>\<open>s.split(sep)\<close> for a separator of one character, and \<^verbatim>\<open>xs[i]\<close> on the array.\<close>

fun split :: "char \<Rightarrow> string \<Rightarrow> string list" where
  "split sep [] = [[]]"
| "split sep (c # cs) =
     (if c = sep then [] # split sep cs
      else (case split sep cs of
              [] \<Rightarrow> [[c]]
            | p # ps \<Rightarrow> (c # p) # ps))"

definition at_index :: "'a list \<Rightarrow> nat \<Rightarrow> 'a option" where
  "at_index xs i = (if i < length xs then Some (xs ! i) else None)"

text \<open>
  \<^verbatim>\<open>fileToGenerativePart\<close>: the part after the first comma of the data URL, with the MIME
  type of the file; the promise rejects when the reader fails.
\<close>

definition fileToGenerativePart :: "env \<Rightarrow> File \<Rightarrow> part outcome" where
  "fileToGenerativePart e file =
     (case readAsDataURL e file of
        Inl err \<Rightarrow> (Inl err, [ReadAsDataURL file])
      | Inr base64String \<Rightarrow>
          (Inr (InlineDataPart (at_index (split CHR '','' base64String) 1) (file_type file)),
           [ReadAsDataURL file]))"

definition image_request :: "part \<Rightarrow> gen_request" where
  "image_request imgPart =
     \<lparr>req_model = ''gemini-3-pro-image-preview'',
      req_contents = Parts [imgPart,
        TextPart ''Detailed analysis of this image content, text, and visual elements.''],
      req_config = None\<rparr>"

definition analyzeUploadedImage :: "env \<Rightarrow> File \<Rightarrow> string outcome" where
  "analyzeUploadedImage e file =
     (case getAiClient e of
        Inl err \<Rightarrow> (Inl err, [])
      | Inr ai \<Rightarrow>
          (case fileToGenerativePart e file of
             (Inl err, tr) \<Rightarrow> (Inl err, tr)
           | (Inr imgPart, tr) \<Rightarrow>
               (case generateContent e (image_request imgPart) of
                  Inl err \<Rightarrow> (Inl err, tr @ [GenerateContent (image_request imgPart)])
                | Inr response \<Rightarrow>
                    (Inr (or_else (resp_text response) ''Could not analyze image.''),
                     tr @ [GenerateContent (image_request imgPart)]))))"

section \<open>The chat component\<close>

text \<open>
  Of \<^verbatim>\<open>ChatInterface.handleSend\<close>, the message it appends in reply to the text sent: in
  search mode the answer of \<^verbatim>\<open>researchTopic\<close> with its sources, otherwise the answer of
  \<^verbatim>\<open>chatWithMeetingContext\<close> with no sources. A non-empty array of sources is mapped with
  \<^verbatim>\<open>s.web || s.entry_point\<close> and filtered with \<^verbatim>\<open>Boolean\<close>; an empty one gives
  \<^verbatim>\<open>undefined\<close>. An error of either call is caught and answered with an apology. The two
  identifiers are the strings made from \<^verbatim>\<open>Date.now()\<close>.
\<close>

datatype role = User | Model

record ChatMessage =
  msg_id :: string
  msg_role :: role
  msg_content :: string
  msg_sources :: "source_link list option"

definition web_or_entry_point :: "grounding_chunk \<Rightarrow> source_link option" where
  "web_or_entry_point s = (case web s of Some l \<Rightarrow> Some l | None \<Rightarrow> entry_point s)"

definition message_sources :: "grounding_chunk list \<Rightarrow> source_link list option" where
  "message_sources sources =
     (if length sources > 0
      then Some (List.map_filter web_or_entry_point sources)
      else None)"

definition role_name :: "role \<Rightarrow> string" where
  "role_name r = (case r of User \<Rightarrow> ''user'' | Model \<Rightarrow> ''model'')"

definition handleSend_reply ::
  "env \<Rightarrow> bool \<Rightarrow> ChatMessage list \<Rightarrow> string \<Rightarrow> string \<Rightarrow> string \<Rightarrow> string \<Rightarrow> ChatMessage" where
  "handleSend_reply e useSearch messages content contextData id_ok id_err =
     (case (if useSearch then
              (case fst (researchTopic e content) of
                 Inl err \<Rightarrow> Inl err
               | Inr result \<Rightarrow> Inr (res_text result, res_sources result))
            else
              (case fst (chatWithMeetingContext e
                           (map (\<lambda>m. \<lparr>h_role = role_name (msg_role m),
                                       h_content = msg_content m\<rparr>) messages)
                           content contextData) of
                 Inl err \<Rightarrow> Inl err
               | Inr responseText \<Rightarrow> Inr (responseText, []))) of
        Inl error \<Rightarrow>
          \<lparr>msg_id = id_err, msg_role = Model,
           msg_content = ''Sorry, I encountered an error processing your request.'',
           msg_sources = None\<rparr>
      | Inr (responseText, sources) \<Rightarrow>
          \<lparr>msg_id = id_ok, msg_role = Model, msg_content = responseText,
           msg_sources = message_sources sources\<rparr>)"

section \<open>Rounds of the polling loop\<close>

abbreviation processing :: "file_data \<Rightarrow> bool" where
  "processing fileData \<equiv> fd_state fileData = Some ''PROCESSING''"

text \<open>
  \<^verbatim>\<open>fileData\<close> and the events after \<open>n\<close> rounds of the loop body, started at status request
  \<open>i\<close>; used to say how many rounds the loop makes.
\<close>

fun after_rounds ::
  "env \<Rightarrow> bool \<Rightarrow> nat \<Rightarrow> nat \<Rightarrow> file_data \<Rightarrow> event list \<Rightarrow> file_data \<times> event list" where
  "after_rounds e onProgress 0 i fileData tr = (fileData, tr)"
| "after_rounds e onProgress (Suc n) i fileData tr =
     after_rounds e onProgress n (Suc i)
       (fst (poll_body e onProgress i fileData))
       (tr @ snd (poll_body e onProgress i fileData))"

text \<open>
  The request \<^verbatim>\<open>uploadMediaFile\<close> sends for a file, and \<^verbatim>\<open>fileData\<close> with the events so far
  after \<open>n\<close> rounds of its loop, when the upload was answered with \<open>r0\<close>.
\<close>

abbreviation upload_request :: "File \<Rightarrow> upload_params" where
  "upload_request file \<equiv>
     \<lparr>up_file = file, up_displayName = file_name file, up_mimeType = file_type file\<rparr>"

abbreviation polled ::
  "env \<Rightarrow> File \<Rightarrow> bool \<Rightarrow> api_result \<Rightarrow> nat \<Rightarrow> file_data \<times> event list" where
  "polled e file onProgress r0 n \<equiv>
     after_rounds e onProgress n 0 (unwrap r0)
       (report onProgress ''Uploading media to safe storage...''
        @ [FilesUpload (upload_request file)])"

section \<open>Simulated environments\<close>

text \<open>
  A scripted environment for running the functions on concrete inputs: one answer to the
  upload, a list of answers to the status requests in order and a fixed answer to every
  status request after them, one answer to every generation or chat request, and the
  texts \<^verbatim>\<open>JSON.parse\<close> accepts with their values.
\<close>

definition simulated ::
  "string option \<Rightarrow> (js_error + api_result) \<Rightarrow> (js_error + api_result) list \<Rightarrow>
   (js_error + api_result) \<Rightarrow> (js_error + gen_response) \<Rightarrow> (string \<times> json) list \<Rightarrow> env" where
  "simulated key upload statuses later answer parses =
     \<lparr>API_KEY = key,
      files_upload = (\<lambda>_. upload),
      files_get = (\<lambda>i _. if i < length statuses then statuses ! i else later),
      generateContent = (\<lambda>_. answer),
      sendMessage = (\<lambda>_ _. answer),
      JSON_parse = map_of parses,
      readAsDataURL = (\<lambda>_. Inl (Error ''unreadable''))\<rparr>"

definition recording :: File where
  "recording = \<lparr>file_name = ''standup.mp4'', file_type = ''video/mp4''\<rparr>"

definition handle :: "string \<Rightarrow> api_result" where
  "handle st =
     Direct \<lparr>fd_name = Some ''files/abc'', fd_uri = Some ''https://files/abc'',
             fd_mimeType = Some ''video/mp4'', fd_state = Some st\<rparr>"

definition reply :: "string \<Rightarrow> js_error + gen_response" where
  "reply t = Inr \<lparr>resp_text = Some t, resp_candidates = None\<rparr>"

text \<open>A response text that is valid JSON and holds only a title.\<close>

definition title_only :: string where
  \<open>title_only = ''{"title":"Standup"}''\<close>

text \<open>A search answer with the grounding chunks given.\<close>

definition grounded :: "grounding_chunk list \<Rightarrow> js_error + gen_response" where
  "grounded chunks =
     Inr \<lparr>resp_text = Some ''Found.'',
          resp_candidates = Some [\<lparr>groundingMetadata = Some \<lparr>groundingChunks = Some chunks\<rparr>\<rparr>]\<rparr>"

section \<open>Properties of the service\<close>

subsection \<open>Configuration\<close>

lemma getAiClient_no_key:
  "falsy (API_KEY e) \<Longrightarrow> getAiClient e = Inl (Error ''API Key not found'')"
  by (cases "API_KEY e") (simp_all add: getAiClient_def)

lemma getAiClient_key:
  "\<not> falsy (API_KEY e) \<Longrightarrow> \<exists>k. getAiClient e = Inr k"
  by (cases "API_KEY e") (simp_all add: getAiClient_def)

text \<open>
  Claim C9. When \<^verbatim>\<open>process.env.API_KEY\<close> is missing or empty, each of the four public
  operations, and the upload the analysis starts with, throws
  \<^verbatim>\<open>Error("API Key not found")\<close> and has done nothing before: no remote request, no other
  event. The key is read inside every call (the result is a function
  of the environment of that call), not once when a client is built.
\<close>

theorem missing_key_throws_before_any_request:
  assumes "falsy (API_KEY e)"
  shows "analyzeMeetingMedia e file onProgress = Some (Inl (Error ''API Key not found''), [])
       \<and> uploadMediaFile e file onProgress = Some (Inl (Error ''API Key not found''), [])
       \<and> chatWithMeetingContext e history newMessage contextData
           = (Inl (Error ''API Key not found''), [])
       \<and> researchTopic e query = (Inl (Error ''API Key not found''), [])
       \<and> analyzeUploadedImage e img = (Inl (Error ''API Key not found''), [])"
  using getAiClient_no_key[OF assms]
  by (simp add: analyzeMeetingMedia_def uploadMediaFile_def chatWithMeetingContext_def
      researchTopic_def analyzeUploadedImage_def)

theorem missing_key_throws_before_any_request_witness:
  "falsy (API_KEY (simulated None (Inr (handle ''ACTIVE'')) [] (Inr (handle ''ACTIVE'')) (reply ''{}'') []))
   \<and> analyzeMeetingMedia (simulated None (Inr (handle ''ACTIVE'')) [] (Inr (handle ''ACTIVE'')) (reply ''{}'') [])
        recording True = Some (Inl (Error ''API Key not found''), [])
   \<and> uploadMediaFile (simulated None (Inr (handle ''ACTIVE'')) [] (Inr (handle ''ACTIVE'')) (reply ''{}'') [])
        recording True = Some (Inl (Error ''API Key not found''), [])
   \<and> chatWithMeetingContext (simulated None (Inr (handle ''ACTIVE'')) [] (Inr (handle ''ACTIVE'')) (reply ''{}'') [])
        [] ''Who spoke?'' ''notes'' = (Inl (Error ''API Key not found''), [])
   \<and> researchTopic (simulated None (Inr (handle ''ACTIVE'')) [] (Inr (handle ''ACTIVE'')) (reply ''{}'') [])
        ''news'' = (Inl (Error ''API Key not found''), [])
   \<and> analyzeUploadedImage (simulated None (Inr (handle ''ACTIVE'')) [] (Inr (handle ''ACTIVE'')) (reply ''{}'') [])
        recording = (Inl (Error ''API Key not found''), [])"
proof -
  have "falsy (API_KEY (simulated None (Inr (handle ''ACTIVE'')) [] (Inr (handle ''ACTIVE'')) (reply ''{}'') []))"
    by (simp add: simulated_def)
  from this missing_key_throws_before_any_request[OF this, of recording True "[]" "''Who spoke?''"
      "''notes''" "''news''" recording]
  show ?thesis by simp
qed

subsection \<open>The system instruction of the context chat\<close>

text \<open>
  Claim C8. A \<^verbatim>\<open>contextData\<close> of more than 30000 code units enters the system instruction
  as its first 30000 code units and nothing of the rest; one of at most 30000 enters
  whole. With a key configured, this instruction is the one of the chat session created.
\<close>

theorem context_cut_at_30000:
  "(30000 < length contextData \<longrightarrow>
      systemInstruction contextData
        = instruction_head @ take 30000 contextData @ instruction_tail
      \<and> length (take 30000 contextData) = 30000)
   \<and> (length contextData \<le> 30000 \<longrightarrow>
      systemInstruction contextData = instruction_head @ contextData @ instruction_tail)
   \<and> (\<not> falsy (API_KEY e) \<longrightarrow>
      snd (chatWithMeetingContext e history newMessage contextData)
        = [ChatsCreate (chat_request history contextData), SendMessage newMessage]
      \<and> chat_systemInstruction (chat_request history contextData)
        = systemInstruction contextData)"
proof (intro conjI impI)
  assume "\<not> falsy (API_KEY e)"
  then obtain k where "getAiClient e = Inr k"
    using getAiClient_key by blast
  then show "snd (chatWithMeetingContext e history newMessage contextData)
        = [ChatsCreate (chat_request history contextData), SendMessage newMessage]"
    by (simp add: chatWithMeetingContext_def Let_def split: sum.split)
qed (simp_all add: systemInstruction_def substring0_def chat_request_def)

theorem context_cut_at_30000_witness:
  "30000 < length (replicate 30001 CHR ''x'')
   \<and> systemInstruction (replicate 30001 CHR ''x'')
       = instruction_head @ replicate 30000 CHR ''x'' @ instruction_tail
   \<and> length ''short notes'' \<le> 30000
   \<and> systemInstruction ''short notes'' = instruction_head @ ''short notes'' @ instruction_tail
   \<and> \<not> falsy (API_KEY (simulated (Some ''k'') (Inr (handle ''ACTIVE'')) [] (Inr (handle ''ACTIVE'')) (reply ''Ann'') []))
   \<and> snd (chatWithMeetingContext
            (simulated (Some ''k'') (Inr (handle ''ACTIVE'')) [] (Inr (handle ''ACTIVE'')) (reply ''Ann'') [])
            [] ''Who spoke?'' ''short notes'')
       = [ChatsCreate (chat_request [] ''short notes''), SendMessage ''Who spoke?'']"
  using context_cut_at_30000[of "replicate 30001 CHR ''x''"
      "simulated (Some ''k'') (Inr (handle ''ACTIVE'')) [] (Inr (handle ''ACTIVE'')) (reply ''Ann'') []"
      "[]" "''Who spoke?''"]
    context_cut_at_30000[of "''short notes''"
      "simulated (Some ''k'') (Inr (handle ''ACTIVE'')) [] (Inr (handle ''ACTIVE'')) (reply ''Ann'') []"
      "[]" "''Who spoke?''"]
  by (simp add: simulated_def)

text \<open>
  Claim C10. With a key configured, \<^verbatim>\<open>chatWithMeetingContext\<close> creates one chat session, and
  whatever \<^verbatim>\<open>contextData\<close> is, short or long, the system instruction of that session
  contains the text \<^verbatim>\<open>... (truncated if too long)\<close>, right after the (at most 30000) code
  units of \<^verbatim>\<open>contextData\<close>: the notice is part of the template and does not depend on
  whether anything was cut.
\<close>

theorem truncation_notice_unconditional:
  assumes "\<not> falsy (API_KEY e)"
  shows "\<exists>c. snd (chatWithMeetingContext e history newMessage contextData)
               = [ChatsCreate c, SendMessage newMessage]
            \<and> sublist ''... (truncated if too long)'' (chat_systemInstruction c)
            \<and> chat_systemInstruction c
               = instruction_head @ take 30000 contextData
                 @ ''... (truncated if too long). \<newline>  Be concise and helpful.''"
proof -
  from assms obtain k where "getAiClient e = Inr k"
    using getAiClient_key by blast
  then have t: "snd (chatWithMeetingContext e history newMessage contextData)
        = [ChatsCreate (chat_request history contextData), SendMessage newMessage]"
    by (simp add: chatWithMeetingContext_def Let_def split: sum.split)
  have i: "chat_systemInstruction (chat_request history contextData)
        = (instruction_head @ take 30000 contextData)
          @ ''... (truncated if too long)'' @ ''. \<newline>  Be concise and helpful.''"
    by (simp add: chat_request_def systemInstruction_def instruction_tail_def substring0_def)
  then have "sublist ''... (truncated if too long)''
               (chat_systemInstruction (chat_request history contextData))"
    unfolding sublist_def by blast
  moreover from i have "chat_systemInstruction (chat_request history contextData)
               = instruction_head @ take 30000 contextData
                 @ ''... (truncated if too long). \<newline>  Be concise and helpful.''"
    by simp
  ultimately show ?thesis using t by blast
qed

theorem truncation_notice_unconditional_witness:
  "length ''short notes'' \<le> 30000
   \<and> (\<exists>c. snd (chatWithMeetingContext
                 (simulated (Some ''k'') (Inr (handle ''ACTIVE'')) [] (Inr (handle ''ACTIVE''))
                    (reply ''Ann'') [])
                 [] ''Who spoke?'' ''short notes'')
           = [ChatsCreate c, SendMessage ''Who spoke?'']
         \<and> sublist ''... (truncated if too long)'' (chat_systemInstruction c)
         \<and> chat_systemInstruction c
           = instruction_head @ ''short notes''
             @ ''... (truncated if too long). \<newline>  Be concise and helpful.'')"
proof -
  have "\<not> falsy (API_KEY (simulated (Some ''k'') (Inr (handle ''ACTIVE'')) []
                            (Inr (handle ''ACTIVE'')) (reply ''Ann'') []))"
    by (simp add: simulated_def)
  from truncation_notice_unconditional[OF this, of "[]" "''Who spoke?''" "''short notes''"]
  show ?thesis by simp
qed

subsection \<open>The polling loop\<close>

text \<open>
  The loop either stops at once or makes one round and goes on; it returns exactly when
  some round leaves \<^verbatim>\<open>fileData\<close> in a state other than \<^verbatim>\<open>"PROCESSING"\<close>, with what the
  first such round left, and it runs forever when no round does.
\<close>

lemma poll_loop_done:
  "\<not> processing fd \<Longrightarrow> poll_loop e p i fd tr = Some (fd, tr)"
  by (subst poll_loop.simps) simp

lemma poll_loop_step:
  "processing fd \<Longrightarrow>
   poll_loop e p i fd tr =
   poll_loop e p (Suc i) (fst (poll_body e p i fd)) (tr @ snd (poll_body e p i fd))"
  by (subst poll_loop.simps) simp

lemma poll_loop_rounds:
  "(\<forall>k<n. processing (fst (after_rounds e p k i fd tr))) \<Longrightarrow>
   poll_loop e p i fd tr =
   poll_loop e p (i + n) (fst (after_rounds e p n i fd tr)) (snd (after_rounds e p n i fd tr))"
proof (induction n arbitrary: i fd tr)
  case 0
  then show ?case by simp
next
  case (Suc n)
  from Suc.prems have p0: "processing fd" by (auto dest: spec[of _ 0])
  have "\<forall>k<n. processing (fst (after_rounds e p k (Suc i) (fst (poll_body e p i fd)) (tr @ snd (poll_body e p i fd))))"
  proof (intro allI impI)
    fix k assume "k < n"
    then have "Suc k < Suc n" by simp
    with Suc.prems have "processing (fst (after_rounds e p (Suc k) i fd tr))" by blast
    then show "processing (fst (after_rounds e p k (Suc i) (fst (poll_body e p i fd)) (tr @ snd (poll_body e p i fd))))"
      by simp
  qed
  from Suc.IH[OF this] show ?case
    by (simp add: poll_loop_step[OF p0])
qed

lemma poll_loop_first:
  assumes "\<not> processing (fst (after_rounds e p n i fd tr))"
    and "\<forall>k<n. processing (fst (after_rounds e p k i fd tr))"
  shows "poll_loop e p i fd tr = Some (after_rounds e p n i fd tr)"
  using poll_loop_rounds[OF assms(2)] assms(1)
  by (simp add: poll_loop_done)

lemma poll_loop_returns:
  assumes "\<not> processing (fst (after_rounds e p n i fd tr))"
  shows "\<exists>m\<le>n. poll_loop e p i fd tr = Some (after_rounds e p m i fd tr)"
  using assms
proof (induction n arbitrary: i fd tr)
  case 0
  then show ?case by (simp add: poll_loop_done)
next
  case (Suc n)
  show ?case
  proof (cases "processing fd")
    case False
    then have "poll_loop e p i fd tr = Some (after_rounds e p 0 i fd tr)"
      by (simp add: poll_loop_done)
    then show ?thesis by blast
  next
    case True
    from Suc.prems have "\<not> processing (fst (after_rounds e p n (Suc i) (fst (poll_body e p i fd)) (tr @ snd (poll_body e p i fd))))"
      by simp
    from Suc.IH[OF this] obtain m where "m \<le> n"
      and "poll_loop e p (Suc i) (fst (poll_body e p i fd)) (tr @ snd (poll_body e p i fd))
           = Some (after_rounds e p m (Suc i) (fst (poll_body e p i fd)) (tr @ snd (poll_body e p i fd)))"
      by blast
    then have "Suc m \<le> Suc n" and "poll_loop e p i fd tr = Some (after_rounds e p (Suc m) i fd tr)"
      by (simp_all add: poll_loop_step[OF True])
    then show ?thesis by blast
  qed
qed

lemma poll_loop_Some_rounds:
  assumes "poll_loop e p i fd tr = Some y"
  shows "\<exists>n. y = after_rounds e p n i fd tr \<and> \<not> processing (fst y)
       \<and> (\<forall>k<n. processing (fst (after_rounds e p k i fd tr)))"
proof -
  let ?P = "\<lambda>e p i fd tr y. \<exists>n. y = after_rounds e p n i fd tr \<and> \<not> processing (fst y)
       \<and> (\<forall>k<n. processing (fst (after_rounds e p k i fd tr)))"
  have "?P e p i fd tr y"
  proof (rule poll_loop.raw_induct[where P = ?P, OF _ assms])
    fix lp e p i fd tr y
    assume IH: "\<And>e p i fd tr y. lp e p i fd tr = Some y \<Longrightarrow> ?P e p i fd tr y"
      and eq: "(if fd_state fd = Some ''PROCESSING''
                then lp e p (Suc i) (fst (poll_body e p i fd)) (tr @ snd (poll_body e p i fd))
                else Some (fd, tr)) = Some y"
    show "?P e p i fd tr y"
    proof (cases "processing fd")
      case False
      with eq have "y = after_rounds e p 0 i fd tr \<and> \<not> processing (fst y)"
        by auto
      then show ?thesis by (intro exI[of _ 0]) auto
    next
      case True
      with eq have "lp e p (Suc i) (fst (poll_body e p i fd)) (tr @ snd (poll_body e p i fd)) = Some y"
        by simp
      from IH[OF this] obtain n where n: "y = after_rounds e p n (Suc i) (fst (poll_body e p i fd)) (tr @ snd (poll_body e p i fd))"
        "\<not> processing (fst y)"
        "\<forall>k<n. processing (fst (after_rounds e p k (Suc i) (fst (poll_body e p i fd)) (tr @ snd (poll_body e p i fd))))"
        by blast
      have "\<forall>k<Suc n. processing (fst (after_rounds e p k i fd tr))"
      proof (intro allI impI)
        fix k assume "k < Suc n"
        then show "processing (fst (after_rounds e p k i fd tr))"
          using True n(3) by (cases k) auto
      qed
      with n(1,2) show ?thesis by (intro exI[of _ "Suc n"]) auto
    qed
  qed
  then show ?thesis .
qed

lemma poll_loop_None_iff:
  "poll_loop e p i fd tr = None \<longleftrightarrow> (\<forall>n. processing (fst (after_rounds e p n i fd tr)))"
proof
  assume N: "poll_loop e p i fd tr = None"
  show "\<forall>n. processing (fst (after_rounds e p n i fd tr))"
  proof (rule ccontr)
    assume "\<not> ?thesis"
    then obtain n where "\<not> processing (fst (after_rounds e p n i fd tr))" by blast
    from poll_loop_returns[OF this] N show False by auto
  qed
next
  assume A: "\<forall>n. processing (fst (after_rounds e p n i fd tr))"
  show "poll_loop e p i fd tr = None"
  proof (cases "poll_loop e p i fd tr")
    case None then show ?thesis .
  next
    case (Some y)
    from poll_loop_Some_rounds[OF this] A show ?thesis by auto
  qed
qed

lemma filter_report [simp]:
  "filter is_wait (report p m) = []" "filter is_status_poll (report p m) = []"
  by (simp_all add: report_def)

lemma upload_valid:
  assumes key: "\<not> falsy (API_KEY e)"
    and up: "files_upload e \<lparr>up_file = file, up_displayName = file_name file,
                              up_mimeType = file_type file\<rparr> = Inr r0"
    and v0: "\<not> falsy (fd_name (unwrap r0))" "\<not> falsy (fd_uri (unwrap r0))"
    and loop: "poll_loop e onProgress 0 (unwrap r0)
                 (report onProgress ''Uploading media to safe storage...''
                  @ [FilesUpload \<lparr>up_file = file, up_displayName = file_name file,
                                   up_mimeType = file_type file\<rparr>]) = Some (fd, tr)"
    and ok: "after_poll file fd = Inr up"
  shows "uploadMediaFile e file onProgress = Some (Inr up, tr)"
proof -
  from key obtain k where "getAiClient e = Inr k"
    using getAiClient_key by blast
  with up v0 loop ok show ?thesis
    by (simp add: uploadMediaFile_def upload_try_def Let_def)
qed

text \<open>
  Claim C5. The upload answers with state \<^verbatim>\<open>PROCESSING\<close>, the first status request with
  \<^verbatim>\<open>PROCESSING\<close>, the second with \<^verbatim>\<open>ACTIVE\<close> and a URI: the call returns that URI, after
  exactly two waits, each of 2000 ms, and exactly two status requests; the third look at
  the state ends the loop.
\<close>

theorem two_waits_then_active:
  assumes key: "\<not> falsy (API_KEY e)"
    and up: "files_upload e \<lparr>up_file = file, up_displayName = file_name file,
                              up_mimeType = file_type file\<rparr> = Inr r0"
    and v0: "\<not> falsy (fd_name (unwrap r0))" "\<not> falsy (fd_uri (unwrap r0))"
    and s0: "fd_state (unwrap r0) = Some ''PROCESSING''"
    and g0: "files_get e 0 (fd_name (unwrap r0)) = Inr r1"
    and s1: "fd_state (unwrap r1) = Some ''PROCESSING''"
    and g1: "files_get e 1 (fd_name (unwrap r1)) = Inr r2"
    and s2: "fd_state (unwrap r2) = Some ''ACTIVE''"
    and u2: "fd_uri (unwrap r2) = Some u" "u \<noteq> []"
  shows "\<exists>tr. uploadMediaFile e file onProgress
               = Some (Inr \<lparr>uri = u,
                             mimeType = or_else (fd_mimeType (unwrap r2)) (file_type file)\<rparr>, tr)
            \<and> filter is_wait tr = [SetTimeout 2000, SetTimeout 2000]
            \<and> filter is_status_poll tr
                = [FilesGet (fd_name (unwrap r0)), FilesGet (fd_name (unwrap r1))]"
proof -
  let ?start = "report onProgress ''Uploading media to safe storage...''
              @ [FilesUpload \<lparr>up_file = file, up_displayName = file_name file,
                               up_mimeType = file_type file\<rparr>]"
  let ?round = "\<lambda>n. report onProgress ''Processing media file (this may take a moment)...''
                @ [SetTimeout 2000, FilesGet n]"
  let ?all = "?start @ ?round (fd_name (unwrap r0)) @ ?round (fd_name (unwrap r1))"
  have b0: "poll_body e onProgress 0 (unwrap r0) = (unwrap r1, ?round (fd_name (unwrap r0)))"
    using g0 by (simp add: poll_body_def)
  have b1: "poll_body e onProgress (Suc 0) (unwrap r1) = (unwrap r2, ?round (fd_name (unwrap r1)))"
    using g1 by (simp add: poll_body_def)
  have "poll_loop e onProgress 0 (unwrap r0) ?start
        = poll_loop e onProgress (Suc 0) (fst (poll_body e onProgress 0 (unwrap r0)))
            (?start @ snd (poll_body e onProgress 0 (unwrap r0)))"
    by (rule poll_loop_step[OF s0])
  also have "\<dots> = poll_loop e onProgress (Suc 0) (unwrap r1) (?start @ ?round (fd_name (unwrap r0)))"
    by (simp add: b0)
  also have "\<dots> = poll_loop e onProgress (Suc (Suc 0)) (fst (poll_body e onProgress (Suc 0) (unwrap r1)))
            ((?start @ ?round (fd_name (unwrap r0))) @ snd (poll_body e onProgress (Suc 0) (unwrap r1)))"
    by (rule poll_loop_step[OF s1])
  also have "\<dots> = poll_loop e onProgress (Suc (Suc 0)) (unwrap r2) ?all"
    by (simp add: b1)
  also have "\<dots> = Some (unwrap r2, ?all)"
    using s2 by (simp add: poll_loop_done)
  finally have loop: "poll_loop e onProgress 0 (unwrap r0) ?start = Some (unwrap r2, ?all)" .
  have ok: "after_poll file (unwrap r2)
            = Inr \<lparr>uri = u, mimeType = or_else (fd_mimeType (unwrap r2)) (file_type file)\<rparr>"
    using s2 u2 by (simp add: after_poll_def)
  have "uploadMediaFile e file onProgress
        = Some (Inr \<lparr>uri = u, mimeType = or_else (fd_mimeType (unwrap r2)) (file_type file)\<rparr>, ?all)"
    by (rule upload_valid[OF key up v0 loop ok])
  moreover have "filter is_wait ?all = [SetTimeout 2000, SetTimeout 2000]" by simp
  moreover have "filter is_status_poll ?all
                = [FilesGet (fd_name (unwrap r0)), FilesGet (fd_name (unwrap r1))]" by simp
  ultimately show ?thesis by blast
qed

theorem two_waits_then_active_witness:
  "\<exists>tr. uploadMediaFile
          (simulated (Some ''key'') (Inr (handle ''PROCESSING''))
             [Inr (handle ''PROCESSING''), Inr (handle ''ACTIVE'')]
             (Inl (Error ''gone'')) (reply ''{}'') [])
          recording True
        = Some (Inr \<lparr>uri = ''https://files/abc'', mimeType = ''video/mp4''\<rparr>, tr)
      \<and> filter is_wait tr = [SetTimeout 2000, SetTimeout 2000]
      \<and> filter is_status_poll tr = [FilesGet (Some ''files/abc''), FilesGet (Some ''files/abc'')]"
  using two_waits_then_active[of
      "simulated (Some ''key'') (Inr (handle ''PROCESSING''))
             [Inr (handle ''PROCESSING''), Inr (handle ''ACTIVE'')]
             (Inl (Error ''gone'')) (reply ''{}'') []"
      recording "handle ''PROCESSING''" "handle ''PROCESSING''" "handle ''ACTIVE''"
      "''https://files/abc''" True]
  by (simp add: simulated_def handle_def)

text \<open>
  Claim C6. A status request that rejects does not end the call: in a round where it
  rejects, the loop writes a warning with the error, keeps \<^verbatim>\<open>fileData\<close> as it was and goes
  on to the next round, which waits and asks again. With one rejected status request
  followed by an answer in state \<^verbatim>\<open>ACTIVE\<close> with a URI, the call returns that URI.
\<close>

theorem poll_error_is_tolerated:
  "(processing fd \<and> files_get e i (fd_name fd) = Inl err \<longrightarrow>
      poll_loop e onProgress i fd tr
        = poll_loop e onProgress (Suc i) fd
            (tr @ report onProgress ''Processing media file (this may take a moment)...''
                @ [SetTimeout 2000, FilesGet (fd_name fd),
                   ConsoleWarn ''Error polling file status, retrying...'' (ArgError err)]))
   \<and> (\<not> falsy (API_KEY e)
      \<and> files_upload e \<lparr>up_file = file, up_displayName = file_name file,
                          up_mimeType = file_type file\<rparr> = Inr r0
      \<and> \<not> falsy (fd_name (unwrap r0)) \<and> \<not> falsy (fd_uri (unwrap r0))
      \<and> processing (unwrap r0)
      \<and> files_get e 0 (fd_name (unwrap r0)) = Inl err
      \<and> files_get e 1 (fd_name (unwrap r0)) = Inr r1
      \<and> fd_state (unwrap r1) = Some ''ACTIVE''
      \<and> fd_uri (unwrap r1) = Some u \<and> u \<noteq> [] \<longrightarrow>
      (\<exists>tr'. uploadMediaFile e file onProgress
               = Some (Inr \<lparr>uri = u,
                             mimeType = or_else (fd_mimeType (unwrap r1)) (file_type file)\<rparr>, tr')
            \<and> ConsoleWarn ''Error polling file status, retrying...'' (ArgError err) \<in> set tr'
            \<and> filter is_status_poll tr'
                = [FilesGet (fd_name (unwrap r0)), FilesGet (fd_name (unwrap r0))]
            \<and> filter is_wait tr' = [SetTimeout 2000, SetTimeout 2000]))"
proof (intro conjI impI)
  assume a: "processing fd \<and> files_get e i (fd_name fd) = Inl err"
  then have "poll_body e onProgress i fd
      = (fd, report onProgress ''Processing media file (this may take a moment)...''
             @ [SetTimeout 2000, FilesGet (fd_name fd),
                ConsoleWarn ''Error polling file status, retrying...'' (ArgError err)])"
    by (simp add: poll_body_def)
  with poll_loop_step[of fd e onProgress i tr] a
  show "poll_loop e onProgress i fd tr
        = poll_loop e onProgress (Suc i) fd
            (tr @ report onProgress ''Processing media file (this may take a moment)...''
                @ [SetTimeout 2000, FilesGet (fd_name fd),
                   ConsoleWarn ''Error polling file status, retrying...'' (ArgError err)])"
    by simp
next
  assume a: "\<not> falsy (API_KEY e)
      \<and> files_upload e \<lparr>up_file = file, up_displayName = file_name file,
                          up_mimeType = file_type file\<rparr> = Inr r0
      \<and> \<not> falsy (fd_name (unwrap r0)) \<and> \<not> falsy (fd_uri (unwrap r0))
      \<and> processing (unwrap r0)
      \<and> files_get e 0 (fd_name (unwrap r0)) = Inl err
      \<and> files_get e 1 (fd_name (unwrap r0)) = Inr r1
      \<and> fd_state (unwrap r1) = Some ''ACTIVE''
      \<and> fd_uri (unwrap r1) = Some u \<and> u \<noteq> []"
  let ?start = "report onProgress ''Uploading media to safe storage...''
              @ [FilesUpload \<lparr>up_file = file, up_displayName = file_name file,
                               up_mimeType = file_type file\<rparr>]"
  let ?round = "report onProgress ''Processing media file (this may take a moment)...''
                @ [SetTimeout 2000, FilesGet (fd_name (unwrap r0))]"
  let ?warn = "ConsoleWarn ''Error polling file status, retrying...'' (ArgError err)"
  let ?all = "?start @ ?round @ [?warn] @ ?round"
  from a have s0: "processing (unwrap r0)" by simp
  have b0: "poll_body e onProgress 0 (unwrap r0) = (unwrap r0, ?round @ [?warn])"
    using a by (simp add: poll_body_def)
  have b1: "poll_body e onProgress (Suc 0) (unwrap r0) = (unwrap r1, ?round)"
    using a by (simp add: poll_body_def)
  have "poll_loop e onProgress 0 (unwrap r0) ?start
        = poll_loop e onProgress (Suc 0) (fst (poll_body e onProgress 0 (unwrap r0)))
            (?start @ snd (poll_body e onProgress 0 (unwrap r0)))"
    by (rule poll_loop_step[OF s0])
  also have "\<dots> = poll_loop e onProgress (Suc 0) (unwrap r0) (?start @ ?round @ [?warn])"
    by (simp add: b0)
  also have "\<dots> = poll_loop e onProgress (Suc (Suc 0)) (fst (poll_body e onProgress (Suc 0) (unwrap r0)))
            ((?start @ ?round @ [?warn]) @ snd (poll_body e onProgress (Suc 0) (unwrap r0)))"
    by (rule poll_loop_step[OF s0])
  also have "\<dots> = poll_loop e onProgress (Suc (Suc 0)) (unwrap r1) ?all"
    by (simp add: b1)
  also have "\<dots> = Some (unwrap r1, ?all)"
    using a by (simp add: poll_loop_done)
  finally have loop: "poll_loop e onProgress 0 (unwrap r0) ?start = Some (unwrap r1, ?all)" .
  have ok: "after_poll file (unwrap r1)
            = Inr \<lparr>uri = u, mimeType = or_else (fd_mimeType (unwrap r1)) (file_type file)\<rparr>"
    using a by (simp add: after_poll_def)
  have "uploadMediaFile e file onProgress
        = Some (Inr \<lparr>uri = u, mimeType = or_else (fd_mimeType (unwrap r1)) (file_type file)\<rparr>, ?all)"
    using a by (intro upload_valid[OF _ _ _ _ loop ok]) simp_all
  moreover have "?warn \<in> set ?all" by simp
  moreover have "filter is_status_poll ?all
                = [FilesGet (fd_name (unwrap r0)), FilesGet (fd_name (unwrap r0))]" by simp
  moreover have "filter is_wait ?all = [SetTimeout 2000, SetTimeout 2000]" by simp
  ultimately show "\<exists>tr'. uploadMediaFile e file onProgress
               = Some (Inr \<lparr>uri = u,
                             mimeType = or_else (fd_mimeType (unwrap r1)) (file_type file)\<rparr>, tr')
            \<and> ConsoleWarn ''Error polling file status, retrying...'' (ArgError err) \<in> set tr'
            \<and> filter is_status_poll tr'
                = [FilesGet (fd_name (unwrap r0)), FilesGet (fd_name (unwrap r0))]
            \<and> filter is_wait tr' = [SetTimeout 2000, SetTimeout 2000]"
    by blast
qed

theorem poll_error_is_tolerated_witness:
  "poll_loop
     (simulated (Some ''key'') (Inr (handle ''PROCESSING''))
        [Inl (Error ''503''), Inr (handle ''ACTIVE'')]
        (Inl (Error ''gone'')) (reply ''{}'') [])
     True 0 (unwrap (handle ''PROCESSING'')) []
   = poll_loop
       (simulated (Some ''key'') (Inr (handle ''PROCESSING''))
          [Inl (Error ''503''), Inr (handle ''ACTIVE'')]
          (Inl (Error ''gone'')) (reply ''{}'') [])
       True 1 (unwrap (handle ''PROCESSING''))
       [Progress ''Processing media file (this may take a moment)...'',
        SetTimeout 2000, FilesGet (Some ''files/abc''),
        ConsoleWarn ''Error polling file status, retrying...'' (ArgError (Error ''503''))]
   \<and> (\<exists>tr'. uploadMediaFile
          (simulated (Some ''key'') (Inr (handle ''PROCESSING''))
             [Inl (Error ''503''), Inr (handle ''ACTIVE'')]
             (Inl (Error ''gone'')) (reply ''{}'') [])
          recording True
        = Some (Inr \<lparr>uri = ''https://files/abc'', mimeType = ''video/mp4''\<rparr>, tr')
      \<and> ConsoleWarn ''Error polling file status, retrying...'' (ArgError (Error ''503'')) \<in> set tr'
      \<and> filter is_status_poll tr' = [FilesGet (Some ''files/abc''), FilesGet (Some ''files/abc'')]
      \<and> filter is_wait tr' = [SetTimeout 2000, SetTimeout 2000])"
proof -
  let ?e = "simulated (Some ''key'') (Inr (handle ''PROCESSING''))
             [Inl (Error ''503''), Inr (handle ''ACTIVE'')]
             (Inl (Error ''gone'')) (reply ''{}'') []"
  note inst = poll_error_is_tolerated[of "unwrap (handle ''PROCESSING'')" ?e 0 "Error ''503''"
      True "[]" recording "handle ''PROCESSING''" "handle ''ACTIVE''" "''https://files/abc''"]
  have h1: "processing (unwrap (handle ''PROCESSING''))
            \<and> files_get ?e 0 (fd_name (unwrap (handle ''PROCESSING''))) = Inl (Error ''503'')"
    by (simp add: simulated_def handle_def)
  have h2: "\<not> falsy (API_KEY ?e)
      \<and> files_upload ?e \<lparr>up_file = recording, up_displayName = file_name recording,
                           up_mimeType = file_type recording\<rparr> = Inr (handle ''PROCESSING'')
      \<and> \<not> falsy (fd_name (unwrap (handle ''PROCESSING'')))
      \<and> \<not> falsy (fd_uri (unwrap (handle ''PROCESSING'')))
      \<and> processing (unwrap (handle ''PROCESSING''))
      \<and> files_get ?e 0 (fd_name (unwrap (handle ''PROCESSING''))) = Inl (Error ''503'')
      \<and> files_get ?e 1 (fd_name (unwrap (handle ''PROCESSING''))) = Inr (handle ''ACTIVE'')
      \<and> fd_state (unwrap (handle ''ACTIVE'')) = Some ''ACTIVE''
      \<and> fd_uri (unwrap (handle ''ACTIVE'')) = Some ''https://files/abc''
      \<and> ''https://files/abc'' \<noteq> []"
    by (simp add: simulated_def handle_def)
  from inst h1 have "poll_loop ?e True 0 (unwrap (handle ''PROCESSING'')) []
      = poll_loop ?e True (Suc 0) (unwrap (handle ''PROCESSING''))
          ([] @ report True ''Processing media file (this may take a moment)...''
              @ [SetTimeout 2000, FilesGet (fd_name (unwrap (handle ''PROCESSING''))),
                 ConsoleWarn ''Error polling file status, retrying...''
                   (ArgError (Error ''503''))])"
    by blast
  moreover have "[] @ report True ''Processing media file (this may take a moment)...''
              @ [SetTimeout 2000, FilesGet (fd_name (unwrap (handle ''PROCESSING''))),
                 ConsoleWarn ''Error polling file status, retrying...''
                   (ArgError (Error ''503''))]
      = [Progress ''Processing media file (this may take a moment)...'',
        SetTimeout 2000, FilesGet (Some ''files/abc''),
        ConsoleWarn ''Error polling file status, retrying...'' (ArgError (Error ''503''))]"
    by (simp add: report_def handle_def)
  moreover from inst h2 have "\<exists>tr'. uploadMediaFile ?e recording True
        = Some (Inr \<lparr>uri = ''https://files/abc'',
                      mimeType = or_else (fd_mimeType (unwrap (handle ''ACTIVE'')))
                                   (file_type recording)\<rparr>, tr')
      \<and> ConsoleWarn ''Error polling file status, retrying...'' (ArgError (Error ''503'')) \<in> set tr'
      \<and> filter is_status_poll tr'
          = [FilesGet (fd_name (unwrap (handle ''PROCESSING''))),
             FilesGet (fd_name (unwrap (handle ''PROCESSING'')))]
      \<and> filter is_wait tr' = [SetTimeout 2000, SetTimeout 2000]"
    by blast
  moreover have "or_else (fd_mimeType (unwrap (handle ''ACTIVE''))) (file_type recording)
                 = ''video/mp4''"
     "fd_name (unwrap (handle ''PROCESSING'')) = Some ''files/abc''"
    by (simp_all add: handle_def)
  ultimately show ?thesis by (simp only: One_nat_def) 
qed

text \<open>
  Claim C7. An upload answer without a name or without a URI (missing or empty) makes the
  call throw \<^verbatim>\<open>Error("Upload failed: Invalid response from Gemini API.")\<close>; no status
  request and no wait has happened before it.
\<close>

theorem invalid_upload_response_aborts:
  assumes key: "\<not> falsy (API_KEY e)"
    and up: "files_upload e \<lparr>up_file = file, up_displayName = file_name file,
                              up_mimeType = file_type file\<rparr> = Inr r"
    and inv: "falsy (fd_name (unwrap r)) \<or> falsy (fd_uri (unwrap r))"
  shows "\<exists>tr. uploadMediaFile e file onProgress
               = Some (Inl (Error ''Upload failed: Invalid response from Gemini API.''), tr)
            \<and> analyzeMeetingMedia e file onProgress
               = Some (Inl (Error ''Upload failed: Invalid response from Gemini API.''), tr)
            \<and> filter is_status_poll tr = []
            \<and> filter is_wait tr = []"
proof -
  let ?all = "report onProgress ''Uploading media to safe storage...''
     @ [FilesUpload \<lparr>up_file = file, up_displayName = file_name file,
                      up_mimeType = file_type file\<rparr>,
        ConsoleError ''Invalid upload response:'' (ArgResult r),
        ConsoleError ''Media upload error:''
          (ArgError (Error ''Upload failed: Invalid response from Gemini API.''))]"
  from key obtain k where k: "getAiClient e = Inr k"
    using getAiClient_key by blast
  have u: "uploadMediaFile e file onProgress
        = Some (Inl (Error ''Upload failed: Invalid response from Gemini API.''), ?all)"
    using k up inv by (auto simp add: uploadMediaFile_def upload_try_def Let_def)
  then have "analyzeMeetingMedia e file onProgress
        = Some (Inl (Error ''Upload failed: Invalid response from Gemini API.''), ?all)"
    using k by (simp add: analyzeMeetingMedia_def)
  moreover have "filter is_status_poll ?all = []" "filter is_wait ?all = []" by simp_all
  ultimately show ?thesis using u by blast
qed

theorem invalid_upload_response_aborts_witness:
  "\<exists>tr. uploadMediaFile
          (simulated (Some ''key'')
             (Inr (Wrapped \<lparr>fd_name = Some ''files/abc'', fd_uri = None, fd_mimeType = None,
                            fd_state = Some ''PROCESSING''\<rparr>))
             [] (Inr (handle ''ACTIVE'')) (reply ''{}'') [])
          recording True
        = Some (Inl (Error ''Upload failed: Invalid response from Gemini API.''), tr)
      \<and> analyzeMeetingMedia
          (simulated (Some ''key'')
             (Inr (Wrapped \<lparr>fd_name = Some ''files/abc'', fd_uri = None, fd_mimeType = None,
                            fd_state = Some ''PROCESSING''\<rparr>))
             [] (Inr (handle ''ACTIVE'')) (reply ''{}'') [])
          recording True
        = Some (Inl (Error ''Upload failed: Invalid response from Gemini API.''), tr)
      \<and> filter is_status_poll tr = []
      \<and> filter is_wait tr = []"
  using invalid_upload_response_aborts[of
      "simulated (Some ''key'')
             (Inr (Wrapped \<lparr>fd_name = Some ''files/abc'', fd_uri = None, fd_mimeType = None,
                            fd_state = Some ''PROCESSING''\<rparr>))
             [] (Inr (handle ''ACTIVE'')) (reply ''{}'') []"
      recording
      "Wrapped \<lparr>fd_name = Some ''files/abc'', fd_uri = None, fd_mimeType = None,
                            fd_state = Some ''PROCESSING''\<rparr>" True]
  by (simp add: simulated_def)

subsection \<open>The result of the analysis\<close>

lemma upload_ok_key:
  "uploadMediaFile e file onProgress = Some (Inr up, tr) \<Longrightarrow> \<exists>k. getAiClient e = Inr k"
  by (cases "getAiClient e") (simp_all add: uploadMediaFile_def)

lemma analyze_after_upload:
  assumes up: "uploadMediaFile e file onProgress = Some (Inr up, tr)"
    and gen: "generateContent e (analysis_request up) = Inr response"
  shows "analyzeMeetingMedia e file onProgress
         = Some (fst (parse_response e response),
                 (tr @ report onProgress ''Deep Thinking & Analysis...''
                     @ [GenerateContent (analysis_request up)])
                 @ snd (parse_response e response))"
proof -
  from upload_ok_key[OF up] obtain k where "getAiClient e = Inr k" by blast
  with up gen show ?thesis
    by (simp add: analyzeMeetingMedia_def Let_def)
qed

lemma active_upload:
  "uploadMediaFile (simulated (Some ''key'') (Inr (handle ''ACTIVE'')) [] later answer parses)
     recording False
   = Some (Inr \<lparr>uri = ''https://files/abc'', mimeType = ''video/mp4''\<rparr>,
           [FilesUpload \<lparr>up_file = recording, up_displayName = ''standup.mp4'',
                          up_mimeType = ''video/mp4''\<rparr>])"
  by (simp add: uploadMediaFile_def upload_try_def getAiClient_def simulated_def handle_def
      recording_def report_def after_poll_def poll_loop_done)

lemma analyze_simulated:
  "t \<noteq> [] \<Longrightarrow>
   map_option fst
     (analyzeMeetingMedia
        (simulated (Some ''key'') (Inr (handle ''ACTIVE'')) [] later (reply t) parses)
        recording False)
   = Some (case map_of parses t of
             Some v \<Rightarrow> Inr v
           | None \<Rightarrow> Inl (Error ''Failed to parse analysis results.''))"
proof -
  assume t: "t \<noteq> []"
  let ?e = "simulated (Some ''key'') (Inr (handle ''ACTIVE'')) [] later (reply t) parses"
  have gen: "generateContent ?e
               (analysis_request \<lparr>uri = ''https://files/abc'', mimeType = ''video/mp4''\<rparr>)
             = Inr \<lparr>resp_text = Some t, resp_candidates = None\<rparr>"
    by (simp add: simulated_def reply_def)
  have p: "JSON_parse ?e = map_of parses"
    by (simp add: simulated_def)
  show ?thesis
    using t by (simp add: analyze_after_upload[OF active_upload gen] parse_response_def p
        split: option.split)
qed

lemma analyze_simulated_full:
  "analyzeMeetingMedia
     (simulated (Some ''key'') (Inr (handle ''ACTIVE'')) [] (Inl (Error ''gone''))
        (reply ''{}'') [(''{}'', JObject [])])
     recording False
   = Some (Inr (JObject []),
           [FilesUpload \<lparr>up_file = recording, up_displayName = ''standup.mp4'',
                          up_mimeType = ''video/mp4''\<rparr>,
            GenerateContent
              (analysis_request \<lparr>uri = ''https://files/abc'', mimeType = ''video/mp4''\<rparr>)])"
proof -
  let ?e = "simulated (Some ''key'') (Inr (handle ''ACTIVE'')) [] (Inl (Error ''gone''))
              (reply ''{}'') [(''{}'', JObject [])]"
  have gen: "generateContent ?e
               (analysis_request \<lparr>uri = ''https://files/abc'', mimeType = ''video/mp4''\<rparr>)
             = Inr \<lparr>resp_text = Some ''{}'', resp_candidates = None\<rparr>"
    by (simp add: simulated_def reply_def)
  have p: "JSON_parse ?e = map_of [(''{}'', JObject [])]"
    by (simp add: simulated_def)
  show ?thesis
    by (simp add: analyze_after_upload[OF active_upload gen] parse_response_def p report_def)
qed

text \<open>
  Claim C1, as the code has it. When the upload has succeeded and the analysis request is
  answered with a non-empty text, \<^verbatim>\<open>analyzeMeetingMedia\<close> throws
  \<^verbatim>\<open>Error("Failed to parse analysis results.")\<close> exactly when \<^verbatim>\<open>JSON.parse\<close> rejects the
  text, and returns the value \<^verbatim>\<open>JSON.parse\<close> gives otherwise, unchanged. The response
  schema is sent to the remote service and not checked against the answer.
\<close>

theorem analyze_returns_whatever_parses:
  assumes up: "uploadMediaFile e file onProgress = Some (Inr up, tr)"
    and gen: "generateContent e (analysis_request up) = Inr response"
    and body: "resp_text response = Some text" "text \<noteq> []"
  shows "map_option fst (analyzeMeetingMedia e file onProgress)
         = Some (case JSON_parse e text of
                   Some v \<Rightarrow> Inr v
                 | None \<Rightarrow> Inl (Error ''Failed to parse analysis results.''))"
  using body
  by (simp add: analyze_after_upload[OF up gen] parse_response_def split: option.split)

theorem analyze_returns_whatever_parses_witness:
  "map_option fst
     (analyzeMeetingMedia
        (simulated (Some ''key'') (Inr (handle ''ACTIVE'')) [] (Inl (Error ''gone''))
           (reply ''not json'') [])
        recording False)
   = Some (Inl (Error ''Failed to parse analysis results.''))
   \<and> map_option fst
     (analyzeMeetingMedia
        (simulated (Some ''key'') (Inr (handle ''ACTIVE'')) [] (Inl (Error ''gone''))
           (reply ''[]'') [(''[]'', JArray [])])
        recording False)
   = Some (Inr (JArray []))"
  using analyze_returns_whatever_parses[OF active_upload, of "Inl (Error ''gone'')" "reply ''not json''" "[]"
      "\<lparr>resp_text = Some ''not json'', resp_candidates = None\<rparr>" "''not json''"]
    analyze_returns_whatever_parses[OF active_upload, of "Inl (Error ''gone'')" "reply ''[]''" "[(''[]'', JArray [])]"
      "\<lparr>resp_text = Some ''[]'', resp_candidates = None\<rparr>" "''[]''"]
  by (simp add: simulated_def reply_def)

text \<open>
  Claim C1 as stated fails: the answer \<^verbatim>\<open>{"title":"Standup"}\<close> is valid JSON, lacks the
  required field \<^verbatim>\<open>summary\<close>, and is returned as the result.
\<close>

theorem partial_payload_is_returned:
  "map_of [(title_only, JObject [(''title'', JString ''Standup'')])] title_only
     = Some (JObject [(''title'', JString ''Standup'')])
   \<and> ''summary'' \<in> set (sch_required responseSchema)
   \<and> property (JObject [(''title'', JString ''Standup'')]) ''summary'' = None
   \<and> map_option fst
        (analyzeMeetingMedia
           (simulated (Some ''key'') (Inr (handle ''ACTIVE'')) [] (Inl (Error ''gone''))
              (reply title_only) [(title_only, JObject [(''title'', JString ''Standup'')])])
           recording False)
      = Some (Inr (JObject [(''title'', JString ''Standup'')]))"
proof -
  have "title_only \<noteq> []" by (simp add: title_only_def)
  from analyze_simulated[OF this, of "Inl (Error ''gone'')"
      "[(title_only, JObject [(''title'', JString ''Standup'')])]"]
  show ?thesis
    by (simp add: responseSchema_def)
qed

lemma analyze_success_source:
  assumes "analyzeMeetingMedia e file onProgress = Some (Inr result, tr)"
  shows "\<exists>up tr' response. uploadMediaFile e file onProgress = Some (Inr up, tr')
           \<and> generateContent e (analysis_request up) = Inr response
           \<and> fst (parse_response e response) = Inr result"
  using assms
  by (auto simp add: analyzeMeetingMedia_def Let_def split: sum.splits option.splits prod.splits)

text \<open>
  Claim C4, as the code has it. The result of a successful \<^verbatim>\<open>analyzeMeetingMedia\<close> is the
  value \<^verbatim>\<open>JSON.parse\<close> gave for the non-empty text of the answer: a field is in the
  result exactly when it is in the payload, and nothing is filled in for a missing
  \<^verbatim>\<open>keyDecisions\<close>.
\<close>

theorem analyze_result_is_the_payload:
  assumes "analyzeMeetingMedia e file onProgress = Some (Inr result, tr)"
  shows "\<exists>up response text.
           generateContent e (analysis_request up) = Inr response
         \<and> resp_text response = Some text \<and> text \<noteq> []
         \<and> JSON_parse e text = Some result
         \<and> (\<forall>payload k. JSON_parse e text = Some payload \<longrightarrow> property result k = property payload k)"
proof -
  from analyze_success_source[OF assms] obtain up tr' response
    where g: "generateContent e (analysis_request up) = Inr response"
      and p: "fst (parse_response e response) = Inr result"
    by blast
  from p obtain t where "resp_text response = Some t" "t \<noteq> []"
      "JSON_parse e t = Some result"
    by (auto simp add: parse_response_def split: option.splits if_splits)
  with g show ?thesis
    by (intro exI[of _ up] exI[of _ response] exI[of _ t]) simp
qed

theorem analyze_result_is_the_payload_witness:
  "property (JObject []) ''keyDecisions'' = None
   \<and> (\<exists>up response text.
         generateContent
           (simulated (Some ''key'') (Inr (handle ''ACTIVE'')) [] (Inl (Error ''gone''))
              (reply ''{}'') [(''{}'', JObject [])])
           (analysis_request up) = Inr response
       \<and> resp_text response = Some text \<and> text \<noteq> []
       \<and> JSON_parse
           (simulated (Some ''key'') (Inr (handle ''ACTIVE'')) [] (Inl (Error ''gone''))
              (reply ''{}'') [(''{}'', JObject [])]) text = Some (JObject [])
       \<and> (\<forall>payload k.
             JSON_parse
               (simulated (Some ''key'') (Inr (handle ''ACTIVE'')) [] (Inl (Error ''gone''))
                  (reply ''{}'') [(''{}'', JObject [])]) text = Some payload
             \<longrightarrow> property (JObject []) k = property payload k))"
  using analyze_result_is_the_payload[OF analyze_simulated_full]
  by simp

text \<open>
  Claim C4 as stated fails: for the answer \<^verbatim>\<open>{}\<close> the call succeeds with a result that
  has no \<^verbatim>\<open>title\<close>, and whose \<^verbatim>\<open>keyDecisions\<close> is missing, not the empty array.
\<close>

theorem empty_object_is_returned:
  "property (JObject []) ''title'' = None
   \<and> property (JObject []) ''keyDecisions'' \<noteq> Some (JArray [])
   \<and> map_option fst
        (analyzeMeetingMedia
           (simulated (Some ''key'') (Inr (handle ''ACTIVE'')) [] (Inl (Error ''gone''))
              (reply ''{}'') [(''{}'', JObject [])])
           recording False)
      = Some (Inr (JObject []))"
  by (simp add: analyze_simulated)

subsection \<open>The sources of a search answer\<close>

lemma map_filter_concat:
  "List.map_filter f xs = concat (map (\<lambda>x. case f x of None \<Rightarrow> [] | Some y \<Rightarrow> [y]) xs)"
  by (induction xs) (simp_all add: List.map_filter_simps split: option.split)

text \<open>
  Claim C3, as the code has it. \<^verbatim>\<open>researchTopic\<close> returns the grounding chunks of the
  answer as they are (the empty array when there are none), empty entries included. The
  chat component filters: the message it appends for a non-empty array of chunks has, in
  order, the \<^verbatim>\<open>web\<close> link of each chunk that has one, else its \<^verbatim>\<open>entry_point\<close> link, and
  nothing for a chunk with neither; for an empty array it has no sources.
\<close>

theorem research_returns_chunks_and_chat_filters:
  assumes key: "\<not> falsy (API_KEY e)"
    and gen: "generateContent e (research_request query) = Inr response"
  shows "fst (researchTopic e query)
         = Inr \<lparr>res_text = or_else (resp_text response) ''No results found.'',
                res_sources = (case response_chunks response of None \<Rightarrow> [] | Some cs \<Rightarrow> cs)\<rparr>
       \<and> msg_sources (handleSend_reply e True messages query contextData id_ok id_err)
         = (case response_chunks response of
              None \<Rightarrow> None
            | Some [] \<Rightarrow> None
            | Some cs \<Rightarrow>
                Some (concat (map (\<lambda>c. case web c of
                                          Some l \<Rightarrow> [l]
                                        | None \<Rightarrow> (case entry_point c of
                                                      Some l \<Rightarrow> [l]
                                                    | None \<Rightarrow> [])) cs)))"
proof -
  from key obtain k where k: "getAiClient e = Inr k"
    using getAiClient_key by blast
  have r: "fst (researchTopic e query)
         = Inr \<lparr>res_text = or_else (resp_text response) ''No results found.'',
                res_sources = (case response_chunks response of None \<Rightarrow> [] | Some cs \<Rightarrow> cs)\<rparr>"
    using k gen by (simp add: researchTopic_def)
  have w: "(\<lambda>c. case web_or_entry_point c of None \<Rightarrow> [] | Some y \<Rightarrow> [y])
         = (\<lambda>c. case web c of Some l \<Rightarrow> [l]
                 | None \<Rightarrow> (case entry_point c of Some l \<Rightarrow> [l] | None \<Rightarrow> []))"
    by (rule ext) (simp add: web_or_entry_point_def split: option.split)
  have "msg_sources (handleSend_reply e True messages query contextData id_ok id_err)
        = message_sources (case response_chunks response of None \<Rightarrow> [] | Some cs \<Rightarrow> cs)"
    by (simp add: handleSend_reply_def r Let_def)
  also have "\<dots> = (case response_chunks response of
              None \<Rightarrow> None
            | Some [] \<Rightarrow> None
            | Some cs \<Rightarrow>
                Some (concat (map (\<lambda>c. case web c of
                                          Some l \<Rightarrow> [l]
                                        | None \<Rightarrow> (case entry_point c of
                                                      Some l \<Rightarrow> [l]
                                                    | None \<Rightarrow> [])) cs)))"
    by (simp add: message_sources_def map_filter_concat w split: option.split list.split)
  finally show ?thesis using r by simp
qed

theorem research_returns_chunks_and_chat_filters_witness:
  "fst (researchTopic
          (simulated (Some ''key'') (Inr (handle ''ACTIVE'')) [] (Inl (Error ''gone''))
             (grounded [\<lparr>web = Some \<lparr>link_title = ''A'', link_uri = ''http://a''\<rparr>,
                          entry_point = None\<rparr>,
                        \<lparr>web = None, entry_point = None\<rparr>]) [])
          ''news'')
   = Inr \<lparr>res_text = ''Found.'',
          res_sources = [\<lparr>web = Some \<lparr>link_title = ''A'', link_uri = ''http://a''\<rparr>,
                          entry_point = None\<rparr>,
                         \<lparr>web = None, entry_point = None\<rparr>]\<rparr>
   \<and> msg_sources (handleSend_reply
          (simulated (Some ''key'') (Inr (handle ''ACTIVE'')) [] (Inl (Error ''gone''))
             (grounded [\<lparr>web = Some \<lparr>link_title = ''A'', link_uri = ''http://a''\<rparr>,
                          entry_point = None\<rparr>,
                        \<lparr>web = None, entry_point = None\<rparr>]) [])
          True [] ''news'' ''notes'' ''2'' ''3'')
   = Some [\<lparr>link_title = ''A'', link_uri = ''http://a''\<rparr>]"
  using research_returns_chunks_and_chat_filters[of
      "simulated (Some ''key'') (Inr (handle ''ACTIVE'')) [] (Inl (Error ''gone''))
             (grounded [\<lparr>web = Some \<lparr>link_title = ''A'', link_uri = ''http://a''\<rparr>,
                          entry_point = None\<rparr>,
                        \<lparr>web = None, entry_point = None\<rparr>]) []"
      "''news''"
      "\<lparr>resp_text = Some ''Found.'',
          resp_candidates = Some [\<lparr>groundingMetadata = Some \<lparr>groundingChunks = Some
            [\<lparr>web = Some \<lparr>link_title = ''A'', link_uri = ''http://a''\<rparr>,
                          entry_point = None\<rparr>,
                        \<lparr>web = None, entry_point = None\<rparr>]\<rparr>\<rparr>]\<rparr>"
      "[]" "''notes''" "''2''" "''3''"]
  by (simp add: simulated_def grounded_def response_chunks_def)

text \<open>
  Claim C3 as stated fails: for the chunks \<^verbatim>\<open>[{web: {title: "A", uri: "http://a"}}, {}]\<close>
  the sources \<^verbatim>\<open>researchTopic\<close> returns are both chunks, the empty one among them.
\<close>

theorem research_keeps_empty_entry:
  "fst (researchTopic
          (simulated (Some ''key'') (Inr (handle ''ACTIVE'')) [] (Inl (Error ''gone''))
             (grounded [\<lparr>web = Some \<lparr>link_title = ''A'', link_uri = ''http://a''\<rparr>,
                          entry_point = None\<rparr>,
                        \<lparr>web = None, entry_point = None\<rparr>]) [])
          ''news'')
   = Inr \<lparr>res_text = ''Found.'',
          res_sources = [\<lparr>web = Some \<lparr>link_title = ''A'', link_uri = ''http://a''\<rparr>,
                          entry_point = None\<rparr>,
                         \<lparr>web = None, entry_point = None\<rparr>]\<rparr>"
  by (simp add: researchTopic_def getAiClient_def simulated_def grounded_def response_chunks_def)

subsection \<open>The outcome of an upload\<close>

lemma after_poll_Inr:
  "after_poll file fd = Inr up \<Longrightarrow>
   uri up \<noteq> [] \<and> fd_uri fd = Some (uri up) \<and> fd_state fd \<noteq> Some ''FAILED''"
  by (auto simp add: after_poll_def split: if_splits option.splits)

lemma after_poll_Inl:
  "after_poll file fd = Inl err \<Longrightarrow>
   err = Error ''File processing failed on Gemini servers.''
   \<or> err = Error ''File processing incomplete: Missing URI.''"
  by (auto simp add: after_poll_def split: if_splits option.splits)

lemma stuck_rounds:
  "processing (fst (after_rounds
      (simulated key up [] (Inr (handle ''PROCESSING'')) answer parses) onProgress n i
      (unwrap (handle ''PROCESSING'')) tr))"
proof (induction n arbitrary: i tr)
  case 0
  show ?case by (simp add: handle_def)
next
  case (Suc n)
  have "fst (poll_body (simulated key up [] (Inr (handle ''PROCESSING'')) answer parses)
               onProgress i (unwrap (handle ''PROCESSING'')))
        = unwrap (handle ''PROCESSING'')"
    by (simp add: poll_body_def simulated_def)
  with Suc show ?case by simp
qed

lemma upload_after_loop:
  assumes key: "\<not> falsy (API_KEY e)"
    and up: "files_upload e (upload_request file) = Inr r0"
    and v0: "\<not> falsy (fd_name (unwrap r0))" "\<not> falsy (fd_uri (unwrap r0))"
  shows "uploadMediaFile e file onProgress
         = (case poll_loop e onProgress 0 (unwrap r0)
                  (report onProgress ''Uploading media to safe storage...''
                   @ [FilesUpload (upload_request file)]) of
              None \<Rightarrow> None
            | Some (fd, tr) \<Rightarrow>
                (case after_poll file fd of
                   Inl err \<Rightarrow>
                     Some (Inl err, tr @ [ConsoleError ''Media upload error:'' (ArgError err)])
                 | Inr r \<Rightarrow> Some (Inr r, tr)))"
proof -
  from key obtain k where "getAiClient e = Inr k"
    using getAiClient_key by blast
  with up v0 show ?thesis
    by (simp add: uploadMediaFile_def upload_try_def Let_def split: option.split sum.split prod.split)
qed

lemma ingest_ends:
  "(case uploadMediaFile e file onProgress of
      None \<Rightarrow>
        \<not> falsy (API_KEY e)
        \<and> (\<exists>r0. files_upload e (upload_request file) = Inr r0
              \<and> \<not> falsy (fd_name (unwrap r0)) \<and> \<not> falsy (fd_uri (unwrap r0))
              \<and> (\<forall>n. processing (fst (polled e file onProgress r0 n))))
    | Some (Inl err, tr) \<Rightarrow>
        err \<in> {Error ''API Key not found'',
                Error ''Upload failed: Invalid response from Gemini API.'',
                Error ''File processing failed on Gemini servers.'',
                Error ''File processing incomplete: Missing URI.''}
        \<or> files_upload e (upload_request file) = Inl err
    | Some (Inr up, tr) \<Rightarrow>
        uri up \<noteq> []
        \<and> (\<exists>r0 n fd. files_upload e (upload_request file) = Inr r0
             \<and> polled e file onProgress r0 n = (fd, tr)
             \<and> fd_uri fd = Some (uri up)
             \<and> \<not> processing fd
             \<and> fd_state fd \<noteq> Some ''FAILED''
             \<and> (fd_state fd \<in> {Some ''PROCESSING'', Some ''ACTIVE'', Some ''FAILED''}
                  \<longrightarrow> fd_state fd = Some ''ACTIVE'')))"
proof (cases "getAiClient e")
  case (Inl err)
  then have "err = Error ''API Key not found''"
    by (auto simp add: getAiClient_def split: option.splits if_splits)
  with Inl show ?thesis
    by (simp add: uploadMediaFile_def)
next
  case (Inr k)
  then have key: "\<not> falsy (API_KEY e)"
    by (auto simp add: getAiClient_def split: option.splits if_splits)
  let ?start = "report onProgress ''Uploading media to safe storage...''
                @ [FilesUpload (upload_request file)]"
  show ?thesis
  proof (cases "files_upload e (upload_request file)")
    case (Inl err)
    with Inr show ?thesis
      by (simp add: uploadMediaFile_def upload_try_def Let_def)
  next
    case up: (Inr r0)
    show ?thesis
    proof (cases "falsy (fd_name (unwrap r0)) \<or> falsy (fd_uri (unwrap r0))")
      case True
      with Inr up show ?thesis
        by (auto simp add: uploadMediaFile_def upload_try_def Let_def)
    next
      case valid: False
      show ?thesis
      proof (cases "poll_loop e onProgress 0 (unwrap r0) ?start")
        case None
        then have "\<forall>n. processing (fst (polled e file onProgress r0 n))"
          by (simp add: poll_loop_None_iff)
        with Inr up valid None key show ?thesis
          by (simp add: uploadMediaFile_def upload_try_def Let_def)
      next
        case (Some y)
        obtain fd tr where y: "y = (fd, tr)" by (cases y)
        from poll_loop_Some_rounds[OF Some] y obtain n
          where n: "polled e file onProgress r0 n = (fd, tr)"
            and np: "\<not> processing fd"
          by auto
        show ?thesis
        proof (cases "after_poll file fd")
          case (Inl err)
          from after_poll_Inl[OF this] Inr up valid Some y Inl show ?thesis
            by (auto simp add: uploadMediaFile_def upload_try_def Let_def)
        next
          case res: (Inr r)
          from after_poll_Inr[OF this] n np
          have "uri r \<noteq> [] \<and> (\<exists>r0' n fd. files_upload e (upload_request file) = Inr r0'
             \<and> polled e file onProgress r0' n = (fd, tr)
             \<and> fd_uri fd = Some (uri r)
             \<and> \<not> processing fd
             \<and> fd_state fd \<noteq> Some ''FAILED''
             \<and> (fd_state fd \<in> {Some ''PROCESSING'', Some ''ACTIVE'', Some ''FAILED''}
                  \<longrightarrow> fd_state fd = Some ''ACTIVE''))"
            using up by blast
          with Inr up valid Some y res show ?thesis
            by (simp add: uploadMediaFile_def upload_try_def Let_def)
        qed
      qed
    qed
  qed
qed

text \<open>
  Claim C2, as the code has it. What a call of \<^verbatim>\<open>uploadMediaFile\<close> gives is fixed by the
  environment, case by case. Without a key it throws the key error. With a key: a
  rejected upload request throws its error; an upload answer without name or URI throws
  the invalid-response error; otherwise the loop runs. If every round leaves the state
  \<^verbatim>\<open>"PROCESSING"\<close>, the call never ends: it neither returns nor throws. If some round
  leaves another state, the call ends, and the first such round decides: state
  \<^verbatim>\<open>"FAILED"\<close> throws the processing error, a missing or empty URI throws the missing-URI
  error, and otherwise the call returns that URI with the events up to that round.
  Read from the result: a call that returns a URI returns a non-empty one, the URI of
  the \<^verbatim>\<open>fileData\<close> some round left, whose state is neither \<^verbatim>\<open>"PROCESSING"\<close> nor
  \<^verbatim>\<open>"FAILED"\<close>, so \<^verbatim>\<open>"ACTIVE"\<close> when it is one of the three; a call that throws, throws
  one of the four errors of the service or the error of the rejected upload request.
\<close>

theorem ingest_outcome:
  "(case uploadMediaFile e file onProgress of
      None \<Rightarrow>
        \<not> falsy (API_KEY e)
        \<and> (\<exists>r0. files_upload e (upload_request file) = Inr r0
              \<and> \<not> falsy (fd_name (unwrap r0)) \<and> \<not> falsy (fd_uri (unwrap r0))
              \<and> (\<forall>n. processing (fst (polled e file onProgress r0 n))))
    | Some (Inl err, tr) \<Rightarrow>
        err \<in> {Error ''API Key not found'',
                Error ''Upload failed: Invalid response from Gemini API.'',
                Error ''File processing failed on Gemini servers.'',
                Error ''File processing incomplete: Missing URI.''}
        \<or> files_upload e (upload_request file) = Inl err
    | Some (Inr up, tr) \<Rightarrow>
        uri up \<noteq> []
        \<and> (\<exists>r0 n fd. files_upload e (upload_request file) = Inr r0
             \<and> polled e file onProgress r0 n = (fd, tr)
             \<and> fd_uri fd = Some (uri up)
             \<and> \<not> processing fd
             \<and> fd_state fd \<noteq> Some ''FAILED''
             \<and> (fd_state fd \<in> {Some ''PROCESSING'', Some ''ACTIVE'', Some ''FAILED''}
                  \<longrightarrow> fd_state fd = Some ''ACTIVE'')))
   \<and> (falsy (API_KEY e) \<longrightarrow>
        uploadMediaFile e file onProgress = Some (Inl (Error ''API Key not found''), []))
   \<and> (\<not> falsy (API_KEY e) \<and> files_upload e (upload_request file) = Inl err \<longrightarrow>
        map_option fst (uploadMediaFile e file onProgress) = Some (Inl err))
   \<and> (\<not> falsy (API_KEY e) \<and> files_upload e (upload_request file) = Inr r0
        \<and> (falsy (fd_name (unwrap r0)) \<or> falsy (fd_uri (unwrap r0))) \<longrightarrow>
        map_option fst (uploadMediaFile e file onProgress)
          = Some (Inl (Error ''Upload failed: Invalid response from Gemini API.'')))
   \<and> (\<not> falsy (API_KEY e) \<and> files_upload e (upload_request file) = Inr r0
        \<and> \<not> falsy (fd_name (unwrap r0)) \<and> \<not> falsy (fd_uri (unwrap r0)) \<longrightarrow>
        ((\<forall>k. processing (fst (polled e file onProgress r0 k))) \<longrightarrow>
           uploadMediaFile e file onProgress = None)
        \<and> (\<not> processing (fst (polled e file onProgress r0 n)) \<longrightarrow>
             uploadMediaFile e file onProgress \<noteq> None)
        \<and> (\<not> processing (fst (polled e file onProgress r0 n))
             \<and> (\<forall>k<n. processing (fst (polled e file onProgress r0 k))) \<longrightarrow>
             (fd_state (fst (polled e file onProgress r0 n)) = Some ''FAILED'' \<longrightarrow>
                map_option fst (uploadMediaFile e file onProgress)
                  = Some (Inl (Error ''File processing failed on Gemini servers.'')))
             \<and> (fd_state (fst (polled e file onProgress r0 n)) \<noteq> Some ''FAILED''
                  \<and> falsy (fd_uri (fst (polled e file onProgress r0 n))) \<longrightarrow>
                map_option fst (uploadMediaFile e file onProgress)
                  = Some (Inl (Error ''File processing incomplete: Missing URI.'')))
             \<and> (fd_state (fst (polled e file onProgress r0 n)) \<noteq> Some ''FAILED''
                  \<and> fd_uri (fst (polled e file onProgress r0 n)) = Some u \<and> u \<noteq> [] \<longrightarrow>
                uploadMediaFile e file onProgress
                  = Some (Inr \<lparr>uri = u,
                               mimeType = or_else (fd_mimeType (fst (polled e file onProgress r0 n)))
                                            (file_type file)\<rparr>,
                          snd (polled e file onProgress r0 n)))))"
  (is "?ends \<and> ?nokey \<and> ?rejected \<and> ?invalid \<and> ?loop")
proof (intro conjI)
  show ?ends by (rule ingest_ends)
next
  show ?nokey
    by (auto simp add: uploadMediaFile_def dest: getAiClient_no_key)
next
  show ?rejected
  proof
    assume a: "\<not> falsy (API_KEY e) \<and> files_upload e (upload_request file) = Inl err"
    then obtain k where "getAiClient e = Inr k"
      using getAiClient_key by blast
    with a show "map_option fst (uploadMediaFile e file onProgress) = Some (Inl err)"
      by (simp add: uploadMediaFile_def upload_try_def Let_def)
  qed
next
  show ?invalid
  proof
    assume a: "\<not> falsy (API_KEY e) \<and> files_upload e (upload_request file) = Inr r0
        \<and> (falsy (fd_name (unwrap r0)) \<or> falsy (fd_uri (unwrap r0)))"
    then obtain k where "getAiClient e = Inr k"
      using getAiClient_key by blast
    with a show "map_option fst (uploadMediaFile e file onProgress)
          = Some (Inl (Error ''Upload failed: Invalid response from Gemini API.''))"
      by (auto simp add: uploadMediaFile_def upload_try_def Let_def)
  qed
next
  show ?loop
  proof (intro impI)
    assume a: "\<not> falsy (API_KEY e) \<and> files_upload e (upload_request file) = Inr r0
        \<and> \<not> falsy (fd_name (unwrap r0)) \<and> \<not> falsy (fd_uri (unwrap r0))"
    let ?start = "report onProgress ''Uploading media to safe storage...''
                  @ [FilesUpload (upload_request file)]"
    let ?fd = "fst (polled e file onProgress r0 n)"
    have u: "uploadMediaFile e file onProgress
         = (case poll_loop e onProgress 0 (unwrap r0) ?start of
              None \<Rightarrow> None
            | Some (fd, tr) \<Rightarrow>
                (case after_poll file fd of
                   Inl err \<Rightarrow>
                     Some (Inl err, tr @ [ConsoleError ''Media upload error:'' (ArgError err)])
                 | Inr r \<Rightarrow> Some (Inr r, tr)))"
      using a by (intro upload_after_loop) simp_all
    have never: "(\<forall>k. processing (fst (polled e file onProgress r0 k))) \<longrightarrow>
           uploadMediaFile e file onProgress = None"
    proof
      assume "\<forall>k. processing (fst (polled e file onProgress r0 k))"
      then have "poll_loop e onProgress 0 (unwrap r0) ?start = None"
        using poll_loop_None_iff[of e onProgress 0 "unwrap r0" ?start] by blast
      then show "uploadMediaFile e file onProgress = None"
        by (simp add: u)
    qed
    have some: "\<not> processing ?fd \<longrightarrow> uploadMediaFile e file onProgress \<noteq> None"
    proof
      assume "\<not> processing ?fd"
      from poll_loop_returns[OF this] obtain m
        where "poll_loop e onProgress 0 (unwrap r0) ?start = Some (polled e file onProgress r0 m)"
        by blast
      then show "uploadMediaFile e file onProgress \<noteq> None"
        by (simp add: u split: prod.split sum.split)
    qed
    have first: "\<not> processing ?fd \<and> (\<forall>k<n. processing (fst (polled e file onProgress r0 k))) \<longrightarrow>
             (fd_state ?fd = Some ''FAILED'' \<longrightarrow>
                map_option fst (uploadMediaFile e file onProgress)
                  = Some (Inl (Error ''File processing failed on Gemini servers.'')))
             \<and> (fd_state ?fd \<noteq> Some ''FAILED'' \<and> falsy (fd_uri ?fd) \<longrightarrow>
                map_option fst (uploadMediaFile e file onProgress)
                  = Some (Inl (Error ''File processing incomplete: Missing URI.'')))
             \<and> (fd_state ?fd \<noteq> Some ''FAILED'' \<and> fd_uri ?fd = Some u \<and> u \<noteq> [] \<longrightarrow>
                uploadMediaFile e file onProgress
                  = Some (Inr \<lparr>uri = u, mimeType = or_else (fd_mimeType ?fd) (file_type file)\<rparr>,
                          snd (polled e file onProgress r0 n)))"
    proof
      assume b: "\<not> processing ?fd \<and> (\<forall>k<n. processing (fst (polled e file onProgress r0 k)))"
      obtain fd tr where pn: "polled e file onProgress r0 n = (fd, tr)"
        by (cases "polled e file onProgress r0 n")
      from b have l: "poll_loop e onProgress 0 (unwrap r0) ?start = Some (fd, tr)"
        using poll_loop_first[of e onProgress n 0 "unwrap r0" ?start] by (simp add: pn)
      have f: "fd_state ?fd = Some ''FAILED'' \<longrightarrow>
                map_option fst (uploadMediaFile e file onProgress)
                  = Some (Inl (Error ''File processing failed on Gemini servers.''))"
        by (simp add: u l pn after_poll_def)
      have m: "fd_state ?fd \<noteq> Some ''FAILED'' \<and> falsy (fd_uri ?fd) \<longrightarrow>
                map_option fst (uploadMediaFile e file onProgress)
                  = Some (Inl (Error ''File processing incomplete: Missing URI.''))"
        by (cases "fd_uri fd") (simp_all add: u l pn after_poll_def)
      have r: "fd_state ?fd \<noteq> Some ''FAILED'' \<and> fd_uri ?fd = Some u \<and> u \<noteq> [] \<longrightarrow>
                uploadMediaFile e file onProgress
                  = Some (Inr \<lparr>uri = u, mimeType = or_else (fd_mimeType ?fd) (file_type file)\<rparr>,
                          snd (polled e file onProgress r0 n))"
        by (simp add: u l pn after_poll_def)
      from f m r show "(fd_state ?fd = Some ''FAILED'' \<longrightarrow>
                map_option fst (uploadMediaFile e file onProgress)
                  = Some (Inl (Error ''File processing failed on Gemini servers.'')))
             \<and> (fd_state ?fd \<noteq> Some ''FAILED'' \<and> falsy (fd_uri ?fd) \<longrightarrow>
                map_option fst (uploadMediaFile e file onProgress)
                  = Some (Inl (Error ''File processing incomplete: Missing URI.'')))
             \<and> (fd_state ?fd \<noteq> Some ''FAILED'' \<and> fd_uri ?fd = Some u \<and> u \<noteq> [] \<longrightarrow>
                uploadMediaFile e file onProgress
                  = Some (Inr \<lparr>uri = u, mimeType = or_else (fd_mimeType ?fd) (file_type file)\<rparr>,
                          snd (polled e file onProgress r0 n)))"
        by blast
    qed
    from never some first
    show "((\<forall>k. processing (fst (polled e file onProgress r0 k))) \<longrightarrow>
           uploadMediaFile e file onProgress = None)
        \<and> (\<not> processing ?fd \<longrightarrow> uploadMediaFile e file onProgress \<noteq> None)
        \<and> (\<not> processing ?fd \<and> (\<forall>k<n. processing (fst (polled e file onProgress r0 k))) \<longrightarrow>
             (fd_state ?fd = Some ''FAILED'' \<longrightarrow>
                map_option fst (uploadMediaFile e file onProgress)
                  = Some (Inl (Error ''File processing failed on Gemini servers.'')))
             \<and> (fd_state ?fd \<noteq> Some ''FAILED'' \<and> falsy (fd_uri ?fd) \<longrightarrow>
                map_option fst (uploadMediaFile e file onProgress)
                  = Some (Inl (Error ''File processing incomplete: Missing URI.'')))
             \<and> (fd_state ?fd \<noteq> Some ''FAILED'' \<and> fd_uri ?fd = Some u \<and> u \<noteq> [] \<longrightarrow>
                uploadMediaFile e file onProgress
                  = Some (Inr \<lparr>uri = u, mimeType = or_else (fd_mimeType ?fd) (file_type file)\<rparr>,
                          snd (polled e file onProgress r0 n))))"
      by blast
  qed
qed

theorem ingest_outcome_witness:
  "uploadMediaFile
     (simulated (Some ''key'') (Inr (handle ''PROCESSING''))
        [Inr (handle ''PROCESSING''), Inr (handle ''ACTIVE'')]
        (Inl (Error ''gone'')) (reply ''{}'') [])
     recording True
   = Some (Inr \<lparr>uri = ''https://files/abc'', mimeType = ''video/mp4''\<rparr>,
           [Progress ''Uploading media to safe storage...'',
            FilesUpload (upload_request recording),
            Progress ''Processing media file (this may take a moment)...'',
            SetTimeout 2000, FilesGet (Some ''files/abc''),
            Progress ''Processing media file (this may take a moment)...'',
            SetTimeout 2000, FilesGet (Some ''files/abc'')])
   \<and> uploadMediaFile
       (simulated (Some ''key'') (Inr (handle ''PROCESSING'')) []
          (Inr (handle ''PROCESSING'')) (reply ''{}'') [])
       recording True
     = None
   \<and> map_option fst
       (uploadMediaFile
          (simulated (Some ''key'') (Inr (handle ''PROCESSING''))
             [Inr (handle ''FAILED'')]
             (Inl (Error ''gone'')) (reply ''{}'') [])
          recording True)
     = Some (Inl (Error ''File processing failed on Gemini servers.''))"
proof (intro conjI)
  let ?e = "simulated (Some ''key'') (Inr (handle ''PROCESSING''))
        [Inr (handle ''PROCESSING''), Inr (handle ''ACTIVE'')]
        (Inl (Error ''gone'')) (reply ''{}'') []"
  let ?round = "[Progress ''Processing media file (this may take a moment)...'',
                 SetTimeout 2000, FilesGet (Some ''files/abc'')]"
  let ?begin = "[Progress ''Uploading media to safe storage...'',
                 FilesUpload (upload_request recording)]"
  have p0: "polled ?e recording True (handle ''PROCESSING'') 0
            = (unwrap (handle ''PROCESSING''), ?begin)"
    by (simp add: report_def)
  have p1: "polled ?e recording True (handle ''PROCESSING'') (Suc 0)
            = (unwrap (handle ''PROCESSING''), ?begin @ ?round)"
    by (simp add: report_def poll_body_def simulated_def handle_def)
  have p2: "polled ?e recording True (handle ''PROCESSING'') (Suc (Suc 0))
            = (unwrap (handle ''ACTIVE''), ?begin @ ?round @ ?round)"
    by (simp add: report_def poll_body_def simulated_def handle_def)
  have before: "\<forall>k<Suc (Suc 0). processing (fst (polled ?e recording True (handle ''PROCESSING'') k))"
  proof (intro allI impI)
    fix k :: nat assume "k < Suc (Suc 0)"
    then have "k = 0 \<or> k = Suc 0" by arith
    then show "processing (fst (polled ?e recording True (handle ''PROCESSING'') k))"
      using p0 p1 by (auto simp add: handle_def)
  qed
  have h: "\<not> falsy (API_KEY ?e) \<and> files_upload ?e (upload_request recording) = Inr (handle ''PROCESSING'')
        \<and> \<not> falsy (fd_name (unwrap (handle ''PROCESSING'')))
        \<and> \<not> falsy (fd_uri (unwrap (handle ''PROCESSING'')))"
    by (simp add: simulated_def handle_def)
  have a: "\<not> processing (fst (polled ?e recording True (handle ''PROCESSING'') (Suc (Suc 0))))
        \<and> fd_state (fst (polled ?e recording True (handle ''PROCESSING'') (Suc (Suc 0)))) \<noteq> Some ''FAILED''
        \<and> fd_uri (fst (polled ?e recording True (handle ''PROCESSING'') (Suc (Suc 0))))
            = Some ''https://files/abc''
        \<and> ''https://files/abc'' \<noteq> []"
    by (simp only: p2 fst_conv) (simp add: handle_def)
  from ingest_outcome[where e = ?e and ?file = recording and onProgress = True
      and ?r0.0 = "handle ''PROCESSING''" and n = "Suc (Suc 0)" and u = "''https://files/abc''"]
    h a before
  have "uploadMediaFile ?e recording True
        = Some (Inr \<lparr>uri = ''https://files/abc'',
                      mimeType = or_else (fd_mimeType (fst (polled ?e recording True
                                    (handle ''PROCESSING'') (Suc (Suc 0)))))
                                   (file_type recording)\<rparr>,
                snd (polled ?e recording True (handle ''PROCESSING'') (Suc (Suc 0))))"
    by blast
  then show "uploadMediaFile ?e recording True
   = Some (Inr \<lparr>uri = ''https://files/abc'', mimeType = ''video/mp4''\<rparr>,
           [Progress ''Uploading media to safe storage...'',
            FilesUpload (upload_request recording),
            Progress ''Processing media file (this may take a moment)...'',
            SetTimeout 2000, FilesGet (Some ''files/abc''),
            Progress ''Processing media file (this may take a moment)...'',
            SetTimeout 2000, FilesGet (Some ''files/abc'')])"
    by (simp only: p2 fst_conv snd_conv) (simp add: handle_def)
next
  let ?e = "simulated (Some ''key'') (Inr (handle ''PROCESSING'')) []
          (Inr (handle ''PROCESSING'')) (reply ''{}'') []"
  have h: "\<not> falsy (API_KEY ?e) \<and> files_upload ?e (upload_request recording) = Inr (handle ''PROCESSING'')
        \<and> \<not> falsy (fd_name (unwrap (handle ''PROCESSING'')))
        \<and> \<not> falsy (fd_uri (unwrap (handle ''PROCESSING'')))"
    by (simp add: simulated_def handle_def)
  have "\<forall>k. processing (fst (polled ?e recording True (handle ''PROCESSING'') k))"
    by (intro allI stuck_rounds)
  with ingest_outcome[where e = ?e and ?file = recording and onProgress = True
      and ?r0.0 = "handle ''PROCESSING''"] h
  show "uploadMediaFile ?e recording True = None"
    by blast
next
  let ?e = "simulated (Some ''key'') (Inr (handle ''PROCESSING''))
             [Inr (handle ''FAILED'')]
             (Inl (Error ''gone'')) (reply ''{}'') []"
  have p0: "polled ?e recording True (handle ''PROCESSING'') 0
            = (unwrap (handle ''PROCESSING''),
               [Progress ''Uploading media to safe storage...'',
                FilesUpload (upload_request recording)])"
    by (simp add: report_def)
  have p1: "fst (polled ?e recording True (handle ''PROCESSING'') (Suc 0))
            = unwrap (handle ''FAILED'')"
    by (simp add: report_def poll_body_def simulated_def handle_def)
  have before: "\<forall>k<Suc 0. processing (fst (polled ?e recording True (handle ''PROCESSING'') k))"
    using p0 by (simp add: handle_def)
  have h: "\<not> falsy (API_KEY ?e) \<and> files_upload ?e (upload_request recording) = Inr (handle ''PROCESSING'')
        \<and> \<not> falsy (fd_name (unwrap (handle ''PROCESSING'')))
        \<and> \<not> falsy (fd_uri (unwrap (handle ''PROCESSING'')))"
    by (simp add: simulated_def handle_def)
  have a: "\<not> processing (fst (polled ?e recording True (handle ''PROCESSING'') (Suc 0)))
        \<and> fd_state (fst (polled ?e recording True (handle ''PROCESSING'') (Suc 0))) = Some ''FAILED''"
    by (simp only: p1) (simp add: handle_def)
  from ingest_outcome[where e = ?e and ?file = recording and onProgress = True
      and ?r0.0 = "handle ''PROCESSING''" and n = "Suc 0"]
    h a before
  show "map_option fst (uploadMediaFile ?e recording True)
     = Some (Inl (Error ''File processing failed on Gemini servers.''))"
    by blast
qed

text \<open>
  Claim C2 as stated fails: when the upload and every status request are answered with
  state \<^verbatim>\<open>PROCESSING\<close>, the call neither returns nor throws.
\<close>

theorem ingest_stuck_in_processing:
  "uploadMediaFile
     (simulated (Some ''key'') (Inr (handle ''PROCESSING'')) [] (Inr (handle ''PROCESSING''))
        (reply ''{}'') [])
     recording False = None"
proof -
  let ?e = "simulated (Some ''key'') (Inr (handle ''PROCESSING'')) [] (Inr (handle ''PROCESSING''))
        (reply ''{}'') []"
  have "poll_loop ?e False 0 (unwrap (handle ''PROCESSING''))
          [FilesUpload (upload_request recording)] = None"
    by (simp only: poll_loop_None_iff stuck_rounds simp_thms)
  moreover have "files_upload ?e (upload_request recording) = Inr (handle ''PROCESSING'')"
    by (simp add: simulated_def)
  moreover have "getAiClient ?e = Inr ''key''"
    by (simp add: getAiClient_def simulated_def)
  moreover have "\<not> falsy (fd_name (unwrap (handle ''PROCESSING'')))"
     "\<not> falsy (fd_uri (unwrap (handle ''PROCESSING'')))"
    by (simp_all add: handle_def)
  ultimately show ?thesis
    by (simp add: uploadMediaFile_def upload_try_def Let_def report_def)
qed

end
